theory Spec2Isabelle
  imports Complex_Main
begin

section \<open>McSAS: Monte Carlo fitting of small-angle scattering patterns\<close>

text \<open>
  A shallow embedding of \<^verbatim>\<open>src/McSAS.py\<close>: the set-up of the data
  (\<^verbatim>\<open>setData\<close>, \<^verbatim>\<open>checkParameters\<close>), the optimiser
  (\<^verbatim>\<open>mcFit\<close>), the repetition driver (\<^verbatim>\<open>analyse\<close>) and the
  binning of the observability limits in \<^verbatim>\<open>histogram\<close>.

  Conventions of the embedding.
  \<^item> The data, the parameters of the contributions, their form factors and volumes,
    and what the code computes from them by sums, differences, products and square
    roots are real numbers: the rounding and the overflow of floating-point numbers
    are outside the model. The quotients, the scaling factors, chi-squared and the
    fitted intensities, where the code can divide by zero and where it compares with
    \<^verbatim>\<open>inf\<close> and \<^verbatim>\<open>nan\<close>, are real numbers extended by the two
    infinities and by not-a-number, with the rules of IEEE 754 on those (zero has no
    sign) and exact arithmetic on the numbers.
  \<^item> A 1-D array is a list, a 2-D array such as \<^verbatim>\<open>rset\<close> a list of rows, the
    cache \<^verbatim>\<open>iset\<close> the list of its columns (one per contribution). Of the
    shapes the model keeps the number of rows and, for the total intensity, whether it
    is of shape (n,) or (n, 1), as the sphere model makes them, the only model that
    \<^verbatim>\<open>McSAS\<close> instantiates.
  \<^item> Array objects live in a heap, a map from addresses to contents, because
    \<^verbatim>\<open>rset = prior\<close> binds a second name to the same array object.
  \<^item> The draws of \<^verbatim>\<open>numpy.random\<close> are read from two fixed streams at a
    position that is part of the state, so that "the same random draws" means the same
    streams.
  \<^item> The abstract methods \<^verbatim>\<open>ff\<close> and \<^verbatim>\<open>vol\<close> of
    \<^verbatim>\<open>ParticleModel\<close> and the optimisers of \<^verbatim>\<open>scipy.optimize\<close> are
    parameters; an exception is the value \<open>Inl\<close> of a sum type.
\<close>

subsection \<open>Values, exceptions, arrays\<close>

text \<open>The exceptions that the modelled code raises. The last one stands for what numpy
  raises for an axis that an array does not have, a ValueError or an IndexError
  depending on its version.\<close>

datatype pyerr = ValueError | IndexError | ZeroDivisionError | AttributeError | TypeError
  | UnboundLocalError | AxisError

type_synonym vec = "real list"

type_synonym array2 = "real list list"

text \<open>\<^verbatim>\<open>a.max()\<close> and \<^verbatim>\<open>a.min()\<close> of a non-empty array (numpy raises
  ValueError on an empty one; every caller below tests for that first).\<close>

definition amax :: "vec \<Rightarrow> real" where
  "amax v = fold max (tl v) (hd v)"

definition amin :: "vec \<Rightarrow> real" where
  "amin v = fold min (tl v) (hd v)"

text \<open>\<^verbatim>\<open>numpy.size\<close> of a 2-D array.\<close>

definition arraySize :: "array2 \<Rightarrow> nat" where
  "arraySize a = length (concat a)"

text \<open>The first exception of a sequence of computations wins.\<close>

fun sequenceE :: "(pyerr + 'a) list \<Rightarrow> pyerr + 'a list" where
  "sequenceE [] = Inr []"
| "sequenceE (Inl e # _) = Inl e"
| "sequenceE (Inr x # xs) = (case sequenceE xs of Inl e \<Rightarrow> Inl e | Inr ys \<Rightarrow> Inr (x # ys))"

subsection \<open>Floating-point values with infinities and not-a-number\<close>

datatype npfloat = Fin real | PInf | NInf | NaN

fun fneg :: "npfloat \<Rightarrow> npfloat" where
  "fneg (Fin a) = Fin (- a)"
| "fneg PInf = NInf"
| "fneg NInf = PInf"
| "fneg NaN = NaN"

fun fadd :: "npfloat \<Rightarrow> npfloat \<Rightarrow> npfloat" where
  "fadd (Fin a) (Fin b) = Fin (a + b)"
| "fadd NaN _ = NaN"
| "fadd _ NaN = NaN"
| "fadd PInf NInf = NaN"
| "fadd NInf PInf = NaN"
| "fadd PInf _ = PInf"
| "fadd _ PInf = PInf"
| "fadd NInf _ = NInf"
| "fadd _ NInf = NInf"

definition fsub :: "npfloat \<Rightarrow> npfloat \<Rightarrow> npfloat" where
  "fsub a b = fadd a (fneg b)"

fun fmul :: "npfloat \<Rightarrow> npfloat \<Rightarrow> npfloat" where
  "fmul (Fin a) (Fin b) = Fin (a * b)"
| "fmul NaN _ = NaN"
| "fmul _ NaN = NaN"
| "fmul PInf (Fin b) = (if b = 0 then NaN else if 0 < b then PInf else NInf)"
| "fmul NInf (Fin b) = (if b = 0 then NaN else if 0 < b then NInf else PInf)"
| "fmul (Fin a) PInf = (if a = 0 then NaN else if 0 < a then PInf else NInf)"
| "fmul (Fin a) NInf = (if a = 0 then NaN else if 0 < a then NInf else PInf)"
| "fmul PInf PInf = PInf"
| "fmul NInf NInf = PInf"
| "fmul PInf NInf = NInf"
| "fmul NInf PInf = NInf"

text \<open>Division: a number over zero is an infinity of its sign, zero over zero and an
  infinity over an infinity are not numbers, a number over an infinity is zero.\<close>

fun fdiv :: "npfloat \<Rightarrow> npfloat \<Rightarrow> npfloat" where
  "fdiv (Fin a) (Fin b) =
     (if b = 0 then (if a = 0 then NaN else if 0 < a then PInf else NInf) else Fin (a / b))"
| "fdiv NaN _ = NaN"
| "fdiv (Fin a) NaN = NaN"
| "fdiv PInf NaN = NaN"
| "fdiv NInf NaN = NaN"
| "fdiv (Fin a) PInf = Fin 0"
| "fdiv (Fin a) NInf = Fin 0"
| "fdiv PInf (Fin b) = (if b < 0 then NInf else PInf)"
| "fdiv NInf (Fin b) = (if b < 0 then PInf else NInf)"
| "fdiv PInf PInf = NaN"
| "fdiv PInf NInf = NaN"
| "fdiv NInf PInf = NaN"
| "fdiv NInf NInf = NaN"

fun fsqrt :: "npfloat \<Rightarrow> npfloat" where
  "fsqrt (Fin a) = (if a < 0 then NaN else Fin (sqrt a))"
| "fsqrt PInf = PInf"
| "fsqrt NInf = NaN"
| "fsqrt NaN = NaN"

text \<open>\<^verbatim>\<open>a < b\<close>: false as soon as one side is not a number.\<close>

fun fless :: "npfloat \<Rightarrow> npfloat \<Rightarrow> bool" where
  "fless (Fin a) (Fin b) = (a < b)"
| "fless NaN _ = False"
| "fless _ NaN = False"
| "fless _ NInf = False"
| "fless PInf _ = False"
| "fless NInf _ = True"
| "fless _ PInf = True"

text \<open>The larger of two values in numpy's \<^verbatim>\<open>max\<close>, which returns not-a-number
  when it meets one.\<close>

definition fmax :: "npfloat \<Rightarrow> npfloat \<Rightarrow> npfloat" where
  "fmax a b = (if a = NaN \<or> b = NaN then NaN else if fless a b then b else a)"

definition fsum :: "npfloat list \<Rightarrow> npfloat" where
  "fsum xs = foldl fadd (Fin 0) xs"

text \<open>\<^verbatim>\<open>a.mean()\<close> (not a number for an empty array), \<^verbatim>\<open>a.std()\<close> and
  \<^verbatim>\<open>a.max()\<close>, which raises ValueError on an empty array.\<close>

definition fmean :: "npfloat list \<Rightarrow> npfloat" where
  "fmean xs = fdiv (fsum xs) (Fin (real (length xs)))"

definition fstd :: "npfloat list \<Rightarrow> npfloat" where
  "fstd xs = fsqrt (fmean (map (\<lambda>x. fmul (fsub x (fmean xs)) (fsub x (fmean xs))) xs))"

definition fmaxList :: "npfloat list \<Rightarrow> pyerr + npfloat" where
  "fmaxList xs = (case xs of [] \<Rightarrow> Inl ValueError | x # ys \<Rightarrow> Inr (fold fmax ys x))"

subsection \<open>The model, the settings and the interpreter state\<close>

text \<open>\<^verbatim>\<open>class ParticleModel\<close>: its parameters, each with a
  \<^verbatim>\<open>valueRange\<close>, and the two abstract methods, here for one contribution:
  \<open>vol m r\<close> is the compensated volume of the parameter vector \<open>r\<close>, and
  \<open>ff m q r\<close> the form factor of \<open>r\<close> at every \<open>q\<close>.\<close>

record particleModel =
  valueRanges :: "(real \<times> real) list"
  vol :: "real list \<Rightarrow> real"
  ff :: "vec \<Rightarrow> real list \<Rightarrow> vec"

text \<open>\<^verbatim>\<open>ParticleModel.smear\<close> returns its argument.\<close>

definition smear :: "'a \<Rightarrow> 'a" where
  "smear arg = arg"

text \<open>\<^verbatim>\<open>self.dataset.prepared\<close>, an array with one row per data point; its
  columns \<^verbatim>\<open>data[:, 0]\<close>, \<^verbatim>\<open>data[:, 1]\<close> and
  \<^verbatim>\<open>data[:, 2]\<close> are q, the intensity and its uncertainty.\<close>

type_synonym prepared = "(real \<times> real \<times> real) list"

definition colQ :: "prepared \<Rightarrow> vec" where
  "colQ d = map fst d"

definition colI :: "prepared \<Rightarrow> vec" where
  "colI d = map (\<lambda>x. fst (snd x)) d"

definition colE :: "prepared \<Rightarrow> vec" where
  "colE d = map (\<lambda>x. snd (snd x)) d"

text \<open>\<^verbatim>\<open>class McSASParameters\<close>, the settings that the optimiser reads and never
  writes. \<open>priorsRows\<close> is \<^verbatim>\<open>len(priors)\<close> and \<open>priorsViews\<close> lists the addresses
  of the slices \<^verbatim>\<open>priors[:, :, k]\<close>, which are views: writing one writes
  \<^verbatim>\<open>priors\<close>.\<close>

record mcsasParameters =
  numContribs :: nat
  maxIterations :: nat
  numReps :: nat
  convergenceCriterion :: real
  startFromMinimum :: bool
  maxRetries :: nat
  lowMemoryFootprint :: bool
  priorsRows :: nat
  priorsViews :: "nat list"

text \<open>What the program takes from outside: the model, the two optimisers of
  \<^verbatim>\<open>scipy.optimize\<close> (the flag is \<^verbatim>\<open>background\<close>; the arguments are the
  observed and the calculated intensity, the uncertainty and the starting guess) and
  the streams of random draws.\<close>

record env =
  model :: particleModel
  leastsq :: "bool \<Rightarrow> vec \<Rightarrow> npfloat list \<Rightarrow> vec \<Rightarrow> npfloat \<times> npfloat
                \<Rightarrow> npfloat \<times> npfloat"
  fmin :: "bool \<Rightarrow> vec \<Rightarrow> npfloat list \<Rightarrow> vec \<Rightarrow> npfloat \<times> npfloat
             \<Rightarrow> npfloat \<times> npfloat"
  uniformDraw :: "nat \<Rightarrow> real list"
  intDraw :: "nat \<Rightarrow> nat"

text \<open>The mutable state: the heap of 2-D arrays, the next free address, the positions
  in the two random streams, and \<^verbatim>\<open>McSASParameters.prior\<close> (\<open>None\<close> is the
  empty tuple of the class definition, \<open>Some a\<close> the array at address \<open>a\<close>).\<close>

record pystate =
  heap :: "nat \<Rightarrow> array2"
  nextAddr :: nat
  upos :: nat
  ipos :: nat
  prior :: "nat option"

definition alloc :: "array2 \<Rightarrow> pystate \<Rightarrow> nat \<times> pystate" where
  "alloc arr st =
     (nextAddr st, st\<lparr>heap := (heap st)(nextAddr st := arr), nextAddr := Suc (nextAddr st)\<rparr>)"

text \<open>\<^verbatim>\<open>ParticleModel.randUniform(count)\<close>: \<open>count\<close> parameter vectors.\<close>

definition randUniform :: "env \<Rightarrow> nat \<Rightarrow> pystate \<Rightarrow> array2 \<times> pystate" where
  "randUniform e count st =
     (map (uniformDraw e) [upos st ..< upos st + count], st\<lparr>upos := upos st + count\<rparr>)"

text \<open>\<^verbatim>\<open>numpy.random.randint(bound, size = count)\<close>.\<close>

definition randint :: "env \<Rightarrow> nat \<Rightarrow> nat \<Rightarrow> pystate \<Rightarrow> nat list \<times> pystate" where
  "randint e bound count st =
     (map (\<lambda>k. intDraw e k mod bound) [ipos st ..< ipos st + count],
      st\<lparr>ipos := ipos st + count\<rparr>)"

subsection \<open>mcFit: the initial set of contributions\<close>

text \<open>\<^verbatim>\<open>size(prior)\<close>.\<close>

definition priorSize :: "pystate \<Rightarrow> nat" where
  "priorSize st = (case prior st of None \<Rightarrow> 0 | Some a \<Rightarrow> arraySize (heap st a))"

text \<open>The body of the loop over the parameters when \<^verbatim>\<open>startFromMinimum\<close> is set:
  \<^verbatim>\<open>mb = min(param.valueRange); if mb == 0: mb = pi / q.max()\<close> and the column
  becomes \<^verbatim>\<open>numpy.ones(numContribs) * mb * .5\<close>. The parameters of a
  contribution are numbers: the lower bound zero together with
  \<^verbatim>\<open>q.max() == 0\<close>, for which numpy divides by zero, is not among the inputs
  considered.\<close>

definition startValue :: "vec \<Rightarrow> real \<times> real \<Rightarrow> pyerr + real" where
  "startValue q rng =
     (let mb = min (fst rng) (snd rng) in
      if mb = 0 then (if q = [] then Inl ValueError else Inr (pi / amax q * 0.5))
      else Inr (mb * 0.5))"

text \<open>The first part of \<^verbatim>\<open>mcFit\<close>, up to the computation of \<^verbatim>\<open>vset\<close>. It
  returns the local \<^verbatim>\<open>numContribs\<close>, the address of \<^verbatim>\<open>rset\<close> and the
  state. The branches are those of the source, in its order; \<^verbatim>\<open>rset = prior\<close>
  returns the address of the prior itself.\<close>

definition seed :: "env \<Rightarrow> mcsasParameters \<Rightarrow> vec \<Rightarrow> pystate \<Rightarrow> pyerr + (nat \<times> nat \<times> pystate)" where
  "seed e P q st =
     (let (z, st0) = alloc (replicate (numContribs P)
                              (replicate (length (valueRanges (model e))) 0)) st in
      if priorSize st = 0 then
        (if startFromMinimum P then
           (case sequenceE (map (startValue q) (valueRanges (model e))) of
              Inl err \<Rightarrow> Inl err
            | Inr row \<Rightarrow>
                Inr (numContribs P, z,
                     st0\<lparr>heap := (heap st0)(z := replicate (numContribs P) row)\<rparr>))
         else
           (let (rs, st1) = randUniform e (numContribs P) st0;
                (r, st2) = alloc rs st1
            in Inr (numContribs P, r, st2)))
      else
        (case prior st of
           None \<Rightarrow> Inr (numContribs P, z, st0)
         | Some a \<Rightarrow>
             (let pr = heap st a; p = length pr in
              if p \<noteq> 0 then Inr (p, a, st0)
              else if p = numContribs P then Inr (numContribs P, a, st0)
              else if p < numContribs P then
                (let (idx, st1) = randint e p (numContribs P - p) st0;
                     (r, st2) = alloc (pr @ map (\<lambda>i. pr ! i) idx) st1
                 in Inr (numContribs P, r, st2))
              else if p > numContribs P then
                (let (idx, st1) = randint e p (numContribs P) st0;
                     (r, st2) = alloc (map (\<lambda>i. pr ! i) idx) st1
                 in Inr (numContribs P, r, st2))
              else Inr (numContribs P, z, st0))))"

text \<open>The rows of the initial set.\<close>

definition seedRows :: "env \<Rightarrow> mcsasParameters \<Rightarrow> vec \<Rightarrow> pystate \<Rightarrow> pyerr + array2" where
  "seedRows e P q st =
     (case seed e P q st of Inl err \<Rightarrow> Inl err | Inr (n, r, st') \<Rightarrow> Inr (heap st' r))"

subsection \<open>optimScalingAndBackground\<close>

text \<open>\<^verbatim>\<open>csqr_v1\<close>, the reduced chi-squared:
  \<^verbatim>\<open>sum(((intObs - intCalc)/error)**2) / size(intObs)\<close>. An uncertainty of zero
  makes a term infinite or not a number.\<close>

definition csqr_v1 :: "vec \<Rightarrow> npfloat list \<Rightarrow> vec \<Rightarrow> npfloat" where
  "csqr_v1 intObs intCalc error =
     fdiv (fsum (map (\<lambda>(ob, c, s). let t = fdiv (fsub (Fin ob) c) (Fin s) in fmul t t)
                   (zip intObs (zip intCalc error))))
          (Fin (real (length intObs)))"

text \<open>Version 2 calls \<^verbatim>\<open>optimize.leastsq\<close>, any other version
  \<^verbatim>\<open>optimize.fmin\<close>; without background the second factor is set to zero. The
  returned pair is \<^verbatim>\<open>(sc, conval)\<close>.\<close>

definition optimScalingAndBackground ::
  "env \<Rightarrow> vec \<Rightarrow> npfloat list \<Rightarrow> vec \<Rightarrow> npfloat \<times> npfloat \<Rightarrow> nat \<Rightarrow> bool
     \<Rightarrow> (npfloat \<times> npfloat) \<times> npfloat" where
  "optimScalingAndBackground e intObs intCalc error sc0 ver background =
     (let solver = (if ver = 2 then leastsq e else fmin e) in
      if background then
        (let s = solver True intObs intCalc error sc0
         in (s, csqr_v1 intObs (map (\<lambda>c. fadd (fmul (fst s) c) (snd s)) intCalc) error))
      else
        (let s = (fst (solver False intObs intCalc error sc0), Fin 0)
         in (s, csqr_v1 intObs (map (\<lambda>c. fmul (fst s) c) intCalc) error)))"

subsection \<open>mcFit: the totals and the loop\<close>

text \<open>\<^verbatim>\<open>ff**2 * v**2\<close>, the intensity of one contribution with parameters \<open>r\<close> and
  compensated volume \<open>v\<close> at every q.\<close>

definition contribIntensity :: "env \<Rightarrow> prepared \<Rightarrow> real list \<Rightarrow> real \<Rightarrow> vec" where
  "contribIntensity e d r v = map (\<lambda>f. f\<^sup>2 * v\<^sup>2) (ff (model e) (colQ d) r)"

text \<open>\<^verbatim>\<open>sum(vset**2)\<close>.\<close>

definition sumSquares :: "vec \<Rightarrow> real" where
  "sumSquares vs = sum_list (map (\<lambda>v. v\<^sup>2) vs)"

text \<open>\<^verbatim>\<open>iset.sum(axis = 1)\<close>: for each of the \<open>n\<close> values of q the sum over the
  columns.\<close>

definition rowSums :: "nat \<Rightarrow> vec list \<Rightarrow> vec" where
  "rowSums n cols = map (\<lambda>j. sum_list (map (\<lambda>c. c ! j) cols)) [0..<n]"

text \<open>\<^verbatim>\<open>it / v\<close> for a total intensity and a total of squared volumes: zero
  over zero is not a number.\<close>

definition normalised :: "vec \<Rightarrow> real \<Rightarrow> npfloat list" where
  "normalised tot v = map (\<lambda>x. fdiv (Fin x) (Fin v)) tot"

text \<open>The local variables of \<^verbatim>\<open>mcFit\<close> that the loop changes. \<open>rset\<close> is the
  address of the array; \<open>iset\<close> stays empty in the low-memory mode, which has no
  cache. \<open>itFlat\<close> says that \<^verbatim>\<open>it\<close> has the shape (n,): the sum of the cache
  over its columns and every \<^verbatim>\<open>itest\<close> have it, while the sum that the low-memory
  mode builds from \<^verbatim>\<open>ffset**2 * vset[i]**2\<close> has the shape (n, 1) of the form
  factor of one contribution.\<close>

record mcstate =
  py :: pystate
  rset :: nat
  vset :: vec
  iset :: "vec list"
  it :: vec
  itFlat :: bool
  vst :: real
  sc :: "npfloat \<times> npfloat"
  conval :: npfloat
  ri :: nat
  numMoves :: nat
  numNotAccepted :: nat

text \<open>From \<^verbatim>\<open>vset = self.model.vol(rset)\<close> to the start of the loop. In the
  low-memory mode \<^verbatim>\<open>it\<close> starts as the integer 0 and the intensities are added
  one by one; without contributions it is still that integer when
  \<^verbatim>\<open>it.max()\<close> is called, which an integer does not have.
  \<^verbatim>\<open>intensity.max()\<close>, evaluated before, raises on empty data. Without
  contributions the cached mode goes on with a total of zeros and divides by zero.\<close>

definition mcInit :: "env \<Rightarrow> mcsasParameters \<Rightarrow> prepared \<Rightarrow> nat \<Rightarrow> pystate \<Rightarrow> pyerr + mcstate" where
  "mcInit e P d r st =
     (let rs = heap st r;
          vs = map (vol (model e)) rs;
          cols = map (\<lambda>(row, v). contribIntensity e d row v) (zip rs vs);
          it0 = smear (if lowMemoryFootprint P
                       then foldl (\<lambda>acc c. map (\<lambda>(x, y). x + y) (zip acc c))
                              (replicate (length d) 0) cols
                       else rowSums (length d) cols);
          vst0 = sumSquares vs
      in if d = [] then Inl ValueError
         else if lowMemoryFootprint P \<and> rs = [] then Inl AttributeError
         else
           (let sci = fdiv (Fin (amax (colI d))) (Fin (amax it0));
                bgi = Fin (amin (colI d));
                (sc1, conval1) = optimScalingAndBackground e (colI d)
                                   (normalised it0 vst0) (colE d) (sci, bgi) 1 True;
                (sc2, conval2) = optimScalingAndBackground e (colI d)
                                   (normalised it0 vst0) (colE d) sc1 2 True
            in Inr \<lparr>py = st, rset = r, vset = vs,
                    iset = (if lowMemoryFootprint P then [] else cols),
                    it = it0, itFlat = (\<not> lowMemoryFootprint P), vst = vst0,
                    sc = sc2, conval = conval2, ri = 0,
                    numMoves = 0, numNotAccepted = 0\<rparr>))"

text \<open>\<^verbatim>\<open>vstest = (sqrt(vst) - vset[ri])**2 + vtt**2\<close>.\<close>

definition vstestOf :: "real \<Rightarrow> real \<Rightarrow> real \<Rightarrow> real" where
  "vstestOf vstv v vtt = (sqrt vstv - v)\<^sup>2 + vtt\<^sup>2"

text \<open>\<^verbatim>\<open>it - iset[:, ri] + itt\<close>.\<close>

definition replaceIn :: "vec \<Rightarrow> vec \<Rightarrow> vec \<Rightarrow> vec" where
  "replaceIn tot old new = map (\<lambda>(t, ol, nw). t - ol + nw) (zip tot (zip old new))"

text \<open>The intensity that the step takes out of the total: the cached column, or in the
  low-memory mode the one recomputed from \<^verbatim>\<open>rset[ri]\<close> and
  \<^verbatim>\<open>vset[ri]\<close>. An index beyond the array raises IndexError.\<close>

definition oldIntensity :: "env \<Rightarrow> mcsasParameters \<Rightarrow> prepared \<Rightarrow> mcstate \<Rightarrow> pyerr + vec" where
  "oldIntensity e P d s =
     (if \<not> lowMemoryFootprint P then
        (if ri s < length (iset s) then Inr (iset s ! ri s) else Inl IndexError)
      else
        (if ri s < length (heap (py s) (rset s)) \<and> ri s < length (vset s)
         then Inr (contribIntensity e d (heap (py s) (rset s) ! ri s) (vset s ! ri s))
         else Inl IndexError))"

text \<open>The state after an accepted trial \<open>rt\<close> with volume \<open>vtt\<close> and intensity \<open>itt\<close>:
  \<^verbatim>\<open>rset[ri], sc, conval = rt, sct, convalt\<close>,
  \<^verbatim>\<open>it, vset[ri], vst = itest, vtt, vstest\<close> and, with the cache,
  \<^verbatim>\<open>iset[:, ri] = itt\<close>. The row is written into the array that \<open>rset\<close> refers
  to; \<^verbatim>\<open>itest\<close> is flat in both modes.\<close>

definition accept ::
  "mcsasParameters \<Rightarrow> mcstate \<Rightarrow> real list \<Rightarrow> real \<Rightarrow> vec \<Rightarrow> vec \<Rightarrow> real
     \<Rightarrow> npfloat \<times> npfloat \<Rightarrow> npfloat \<Rightarrow> mcstate" where
  "accept P s rt vtt itt itest vstest sct convalt =
     s\<lparr>py := (py s)\<lparr>heap := (heap (py s))(rset s := (heap (py s) (rset s))[ri s := rt])\<rparr>,
       sc := sct, conval := convalt, it := itest, itFlat := True,
       vset := (vset s)[ri s := vtt], vst := vstest,
       iset := (if lowMemoryFootprint P then iset s else (iset s)[ri s := itt]),
       numMoves := numMoves s + 1, numNotAccepted := 0\<rparr>"

text \<open>One pass through the body of the loop, \<^verbatim>\<open>numIter += 1\<close> apart; \<open>nc\<close> is
  the local \<^verbatim>\<open>numContribs\<close>. The trial is accepted when
  \<^verbatim>\<open>convalt < conval\<close>, which is false when either is not a number.\<close>

definition mcStep :: "env \<Rightarrow> mcsasParameters \<Rightarrow> prepared \<Rightarrow> nat \<Rightarrow> mcstate \<Rightarrow> pyerr + mcstate" where
  "mcStep e P d nc s0 =
     (let (rts, py1) = randUniform e 1 (py s0);
          s = s0\<lparr>py := py1\<rparr>;
          rt = hd rts;
          vtt = vol (model e) rt;
          itt = contribIntensity e d rt vtt
      in case oldIntensity e P d s of
           Inl err \<Rightarrow> Inl err
         | Inr old \<Rightarrow>
             if \<not> ri s < length (vset s) then Inl IndexError
             else
               (let itest = smear (replaceIn (it s) old itt);
                    vstest = vstestOf (vst s) (vset s ! ri s) vtt;
                    (sct, convalt) = optimScalingAndBackground e (colI d)
                                       (normalised itest vstest) (colE d) (sc s) 2 True
                in if fless convalt (conval s) \<and> \<not> ri s < length (heap (py s) (rset s))
                   then Inl IndexError
                   else
                     (let s1 = (if fless convalt (conval s)
                                then accept P s rt vtt itt itest vstest sct convalt
                                else s\<lparr>numNotAccepted := numNotAccepted s + 1\<rparr>)
                      in if nc = 0 then Inl ZeroDivisionError
                         else Inr (s1\<lparr>ri := (ri s + 1) mod nc\<rparr>))))"

text \<open>The loop,
  \<^verbatim>\<open>while (conval > convergenceCriterion and numIter < maxIterations)\<close>; it
  returns \<^verbatim>\<open>numIter\<close> with the state. A chi-squared that is not a number ends
  it.\<close>

function mcLoop ::
  "env \<Rightarrow> mcsasParameters \<Rightarrow> prepared \<Rightarrow> nat \<Rightarrow> nat \<Rightarrow> mcstate \<Rightarrow> pyerr + (nat \<times> mcstate)" where
  "mcLoop e P d nc numIter s =
     (if fless (Fin (convergenceCriterion P)) (conval s) \<and> numIter < maxIterations P then
        (case mcStep e P d nc s of
           Inl err \<Rightarrow> Inl err
         | Inr s' \<Rightarrow> mcLoop e P d nc (numIter + 1) s')
      else Inr (numIter, s))"
  by pat_completeness auto
termination
  by (relation "measure (\<lambda>(e, P, d, nc, numIter, s). maxIterations P - numIter)") auto

declare mcLoop.simps [simp del]

text \<open>What \<^verbatim>\<open>mcFit\<close> returns: \<^verbatim>\<open>rset\<close> (the array object, by its
  address), the fitted intensity with its shape ((n,) when \<open>fitFlat\<close>, otherwise
  (n, 1)), \<^verbatim>\<open>conval\<close>, and of the details the number of iterations and of
  moves.\<close>

record fitResult =
  fitRset :: nat
  fitIntensity :: "npfloat list"
  fitFlat :: bool
  fitConval :: npfloat
  fitIterations :: nat
  fitMoves :: nat

text \<open>\<^verbatim>\<open>mcFit\<close> up to the end of its loop: the initial set, the totals, the
  loop.\<close>

definition mcSearch ::
  "env \<Rightarrow> mcsasParameters \<Rightarrow> prepared \<Rightarrow> pystate \<Rightarrow> pyerr + (nat \<times> mcstate)" where
  "mcSearch e P d st =
     (case seed e P (colQ d) st of
        Inl err \<Rightarrow> Inl err
      | Inr (nc, r, st1) \<Rightarrow>
          (case mcInit e P d r st1 of
             Inl err \<Rightarrow> Inl err
           | Inr s0 \<Rightarrow> mcLoop e P d nc 0 s0))"

text \<open>After the loop: \<^verbatim>\<open>ifinal = it / sum(vset**2)\<close> and one more
  optimisation of the scaling, whose \<^verbatim>\<open>conval\<close> is the one returned, with
  \<^verbatim>\<open>ifinal * sc[0] + sc[1]\<close>, which has the shape of \<^verbatim>\<open>it\<close>.\<close>

definition mcFit :: "env \<Rightarrow> mcsasParameters \<Rightarrow> prepared \<Rightarrow> pystate \<Rightarrow> pyerr + (fitResult \<times> pystate)" where
  "mcFit e P d st =
     (case mcSearch e P d st of
        Inl err \<Rightarrow> Inl err
      | Inr (numIter, s) \<Rightarrow>
          (let ifinal = smear (normalised (it s) (sumSquares (vset s)));
               (scf, convalf) = optimScalingAndBackground e (colI d) ifinal
                                  (colE d) (sc s) 2 True
           in Inr (\<lparr>fitRset = rset s,
                    fitIntensity = map (\<lambda>x. fadd (fmul x (fst scf)) (snd scf)) ifinal,
                    fitFlat = itFlat s,
                    fitConval = convalf, fitIterations = numIter,
                    fitMoves = numMoves s\<rparr>, py s)))"

subsection \<open>analyse\<close>

text \<open>The assignment \<^verbatim>\<open>contributions[:, :, nr] = rset\<close> copies the rows into an
  array with \<^verbatim>\<open>McSASParameters.numContribs\<close> rows: numpy repeats a single row and
  raises ValueError for any other number of rows that differs. (The rows have the
  length of the model on both sides.)\<close>

definition assignRows :: "nat \<Rightarrow> array2 \<Rightarrow> pyerr + array2" where
  "assignRows n rows =
     (if length rows = n then Inr rows
      else if length rows = 1 then Inr (replicate n (hd rows))
      else Inl ValueError)"

text \<open>The assignment \<^verbatim>\<open>contribIntensity[:, :, nr] = ...\<close> into a slice of shape
  (1, n), with n the number of data points: numpy repeats a single value, takes n values
  of shape (n,), and raises ValueError for anything else, so for two or more values of
  shape (n, 1).\<close>

definition assignIntensity :: "nat \<Rightarrow> bool \<Rightarrow> npfloat list \<Rightarrow> pyerr + npfloat list" where
  "assignIntensity n flat xs =
     (if length xs = 1 then Inr (replicate n (hd xs))
      else if flat \<and> length xs = n then Inr xs
      else Inl ValueError)"

text \<open>What one repetition leaves behind: the slices
  \<^verbatim>\<open>contributions[:, :, nr]\<close> and \<^verbatim>\<open>contribIntensity[:, :, nr]\<close>, the
  value of the local \<^verbatim>\<open>convergence\<close> when its loop ends, and
  \<^verbatim>\<open>numIter[nr]\<close>.\<close>

record repetition =
  repContribs :: array2
  repIntensity :: "npfloat list"
  repConvergence :: npfloat
  repIterations :: nat

text \<open>The inner loop of \<^verbatim>\<open>analyse\<close> either leaves through its condition or
  through \<^verbatim>\<open>return\<close>; both carry the value of \<^verbatim>\<open>nt\<close>.\<close>

datatype attemptsEnd = Converged nat repetition pystate | GaveUp nat pystate

text \<open>\<^verbatim>\<open>while convergence > McSASParameters.convergenceCriterion\<close>, entered with
  \<^verbatim>\<open>convergence = inf\<close>, so that the body runs once before the first test (the
  criterion is a number). The body adds one to \<^verbatim>\<open>nt\<close>, calls
  \<^verbatim>\<open>mcFit\<close>, stores what it returns, first the set and then the intensity,
  and then tests \<^verbatim>\<open>nt > maxRetries\<close>. The condition of the loop is false
  for a chi-squared that is not a number.\<close>

function attempts ::
  "env \<Rightarrow> mcsasParameters \<Rightarrow> prepared \<Rightarrow> nat \<Rightarrow> pystate \<Rightarrow> pyerr + attemptsEnd" where
  "attempts e P d nt st =
     (case mcFit e P d st of
        Inl err \<Rightarrow> Inl err
      | Inr (res, st') \<Rightarrow>
          (case assignRows (numContribs P) (heap st' (fitRset res)) of
             Inl err \<Rightarrow> Inl err
           | Inr rows \<Rightarrow>
               (case assignIntensity (length d) (fitFlat res) (fitIntensity res) of
                  Inl err \<Rightarrow> Inl err
                | Inr ints \<Rightarrow>
                    if nt + 1 > maxRetries P then Inr (GaveUp (nt + 1) st')
                    else if fless (Fin (convergenceCriterion P)) (fitConval res)
                      then attempts e P d (nt + 1) st'
                    else Inr (Converged (nt + 1)
                                \<lparr>repContribs = rows, repIntensity = ints,
                                 repConvergence = fitConval res,
                                 repIterations = fitIterations res\<rparr> st'))))"
  by pat_completeness auto
termination
  by (relation "measure (\<lambda>(e, P, d, nt, st). maxRetries P + 1 - nt)") auto

declare attempts.simps [simp del]

text \<open>The loop over the repetitions ends with all of them done, or with the
  \<^verbatim>\<open>return\<close> of a repetition that gave up.\<close>

datatype repsEnd = Finished "repetition list" pystate | Returned pystate

text \<open>The first statement of the loop over the repetitions:
  \<^verbatim>\<open>if (len(prior) <= 0 and len(priors) > 0) or priorsflag\<close> sets the flag and
  binds \<^verbatim>\<open>McSASParameters.prior\<close> to the view
  \<^verbatim>\<open>priors[:, :, nr%size(priors, 2)]\<close>. \<open>noPrior\<close> is
  \<^verbatim>\<open>len(prior) <= 0\<close> for the prior read at the start of \<^verbatim>\<open>analyse\<close>;
  the modulo raises when \<^verbatim>\<open>priors\<close> has no slice. The result is the flag and
  the state.\<close>

definition choosePrior ::
  "mcsasParameters \<Rightarrow> bool \<Rightarrow> bool \<Rightarrow> nat \<Rightarrow> pystate \<Rightarrow> pyerr + (bool \<times> pystate)" where
  "choosePrior P noPrior flag nr st =
     (if (noPrior \<and> priorsRows P > 0) \<or> flag then
        (if priorsViews P = [] then Inl ZeroDivisionError
         else Inr (True,
                   st\<lparr>prior := Some (priorsViews P ! (nr mod length (priorsViews P)))\<rparr>))
      else Inr (flag, st))"

text \<open>\<^verbatim>\<open>for nr in range(numReps)\<close>; \<open>flag\<close> is \<^verbatim>\<open>priorsflag\<close> and
  \<open>acc\<close> collects the repetitions done.\<close>

function repetitions ::
  "env \<Rightarrow> mcsasParameters \<Rightarrow> prepared \<Rightarrow> bool \<Rightarrow> nat \<Rightarrow> bool \<Rightarrow> repetition list \<Rightarrow> pystate
     \<Rightarrow> pyerr + repsEnd" where
  "repetitions e P d noPrior nr flag acc st =
     (if nr < numReps P then
        (case choosePrior P noPrior flag nr st of
           Inl err \<Rightarrow> Inl err
         | Inr (flag', st1) \<Rightarrow>
             (case attempts e P d 0 st1 of
                Inl err \<Rightarrow> Inl err
              | Inr (GaveUp nt st2) \<Rightarrow> Inr (Returned st2)
              | Inr (Converged nt rep st2) \<Rightarrow>
                  repetitions e P d noPrior (nr + 1) flag' (acc @ [rep]) st2))
      else Inr (Finished acc st))"
  by pat_completeness auto
termination
  by (relation "measure (\<lambda>(e, P, d, noPrior, nr, flag, acc, st). numReps P - nr)") auto

declare repetitions.simps [simp del]

text \<open>The dictionary that \<^verbatim>\<open>analyse\<close> appends to \<^verbatim>\<open>self.result\<close>. The
  mean and the standard deviation are numpy's, along the axis of the repetitions.\<close>

record analysis =
  contribs :: "array2 list"
  fitIntMean :: "npfloat list"
  fitIntStd :: "npfloat list"
  fitQ :: vec
  numIterMean :: npfloat

definition analysisOf :: "prepared \<Rightarrow> repetition list \<Rightarrow> analysis" where
  "analysisOf d reps =
     \<lparr>contribs = map repContribs reps,
      fitIntMean = map (\<lambda>j. fmean (map (\<lambda>r. repIntensity r ! j) reps)) [0..<length d],
      fitIntStd = map (\<lambda>j. fstd (map (\<lambda>r. repIntensity r ! j) reps)) [0..<length d],
      fitQ = colQ d,
      numIterMean = fmean (map (\<lambda>r. Fin (real (repIterations r))) reps)\<rparr>"

text \<open>\<^verbatim>\<open>len(prior) <= 0\<close>.\<close>

definition priorLen :: "pystate \<Rightarrow> nat" where
  "priorLen st = (case prior st of None \<Rightarrow> 0 | Some a \<Rightarrow> length (heap st a))"

text \<open>\<^verbatim>\<open>analyse\<close> on the list \<^verbatim>\<open>self.result\<close>: the dictionary is appended
  when every repetition is done; the \<^verbatim>\<open>return\<close> in the loop leaves the list
  as it is and raises nothing.\<close>

definition analyse ::
  "env \<Rightarrow> mcsasParameters \<Rightarrow> prepared \<Rightarrow> analysis list \<Rightarrow> pystate
     \<Rightarrow> pyerr + (analysis list \<times> pystate)" where
  "analyse e P d result st =
     (case repetitions e P d (priorLen st \<le> 0) 0 False [] st of
        Inl err \<Rightarrow> Inl err
      | Inr (Returned st') \<Rightarrow> Inr (result, st')
      | Inr (Finished reps st') \<Rightarrow> Inr (result @ [analysisOf d reps], st'))"

subsection \<open>Setting up: setData, clipDataset, checkParameters\<close>

text \<open>The keyword arguments that \<^verbatim>\<open>setData\<close> reads.\<close>

record kwargs =
  kwQ :: "vec option"
  kwI :: "vec option"
  kwIError :: "vec option"
  kwPsi :: "vec option"
  kwDataset :: "string option"

definition lowerChar :: "char \<Rightarrow> char" where
  "lowerChar c =
     (let n = (of_char c :: nat) in if 65 \<le> n \<and> n \<le> 90 then char_of (n + 32) else c)"

text \<open>\<^verbatim>\<open>numpy.vstack([...]).T\<close>: the arrays become the columns; arrays of different
  lengths raise ValueError.\<close>

definition vstackT :: "vec list \<Rightarrow> pyerr + array2" where
  "vstackT cols =
     (if list_all (\<lambda>c. length c = length (hd cols)) cols
      then Inr (map (\<lambda>i. map (\<lambda>c. c ! i) cols) [0..<length (hd cols)])
      else Inl ValueError)"

text \<open>\<^verbatim>\<open>numpy.diff\<close>.\<close>

definition diff :: "vec \<Rightarrow> vec" where
  "diff q = map (\<lambda>(b, a). b - a) (zip (tl q) q)"

text \<open>\<^verbatim>\<open>SASData(title, data)\<close>. The class \<^verbatim>\<open>DataSet\<close> that it extends
  (module \<^verbatim>\<open>dataset\<close>) is not among the sources; \<open>base\<close> stands for it and says
  what its initialiser and its \<^verbatim>\<open>setOrigin\<close> raise for an array, if anything.
  The initialiser is taken to call \<^verbatim>\<open>setOrigin\<close>, since \<^verbatim>\<open>setData\<close>
  reads \<^verbatim>\<open>sizeBounds\<close> right after the construction.
  \<^verbatim>\<open>SASData.setOrigin\<close> then computes the size bounds from q: the maximum of an
  empty array and the minimum of the differences of fewer than two values raise
  ValueError, and \<^verbatim>\<open>None[:, 0]\<close> raises TypeError.\<close>

definition sasDataInit ::
  "(array2 option \<Rightarrow> pyerr option) \<Rightarrow> array2 option \<Rightarrow> pyerr + real \<times> real" where
  "sasDataInit base data =
     (case base data of
        Some err \<Rightarrow> Inl err
      | None \<Rightarrow>
          (case data of
             None \<Rightarrow> Inl TypeError
           | Some rows \<Rightarrow>
               (let q = map hd rows in
                if length q < 2 then Inl ValueError
                else Inr (pi / amax q, pi / min \<bar>amin q\<bar> \<bar>amin (diff q)\<bar>))))"

record dataset =
  origin :: "array2 option"
  preparedRows :: "array2 option"
  sizeBounds :: "real \<times> real"

text \<open>\<^verbatim>\<open>setData\<close>. The \<^verbatim>\<open>try\<close> around the key \<^verbatim>\<open>Dataset\<close> swallows
  every exception, so the data are the original ones unless the key is there and reads
  \<^verbatim>\<open>fit\<close>. Missing q or intensity raise ValueError; a missing uncertainty is
  logged. The values of the arrays are not looked at.\<close>

definition setData :: "(array2 option \<Rightarrow> pyerr option) \<Rightarrow> kwargs \<Rightarrow> pyerr + dataset" where
  "setData base kw =
     (let isOriginal = (case kwDataset kw of
                          None \<Rightarrow> True
                        | Some kind \<Rightarrow> map lowerChar kind \<noteq> ''fit'')
      in if kwQ kw = None then Inl ValueError
         else if kwI kw = None then Inl ValueError
         else
           (case vstackT (map the (filter (\<lambda>x. x \<noteq> None)
                                    [kwQ kw, kwI kw, kwIError kw, kwPsi kw])) of
              Inl err \<Rightarrow> Inl err
            | Inr data \<Rightarrow>
                if isOriginal then
                  (case sasDataInit base (Some data) of
                     Inl err \<Rightarrow> Inl err
                   | Inr sb \<Rightarrow> Inr \<lparr>origin = Some data, preparedRows = None, sizeBounds = sb\<rparr>)
                else
                  (case sasDataInit base None of
                     Inl err \<Rightarrow> Inl err
                   | Inr sb \<Rightarrow> Inr \<lparr>origin = None, preparedRows = Some data, sizeBounds = sb\<rparr>)))"

text \<open>The settings that \<^verbatim>\<open>clipDataset\<close> reads.\<close>

record clipping =
  maskZeroInt :: bool
  maskNegativeInt :: bool
  qBounds :: "real list option"
  psiBounds :: "real list option"

text \<open>\<^verbatim>\<open>clipDataset\<close>. The nested \<^verbatim>\<open>cutIndices\<close> assigns to
  \<^verbatim>\<open>validIndices\<close>, which makes that name local to it, so its first call raises
  UnboundLocalError. The argument of the call is evaluated before:
  \<^verbatim>\<open>min(qBounds)\<close> and \<^verbatim>\<open>min(psiBounds)\<close> raise ValueError on an empty
  list, and \<open>cutByBounds\<close> is the exception of the first cut by a list of bounds.
  Without a call every row with a finite q, that is every row, is kept.\<close>

definition cutByBounds :: "real list \<Rightarrow> pyerr" where
  "cutByBounds bounds = (if bounds = [] then ValueError else UnboundLocalError)"

definition clipDataset :: "clipping \<Rightarrow> dataset \<Rightarrow> pyerr + dataset" where
  "clipDataset c ds =
     (case origin ds of
        None \<Rightarrow> Inl TypeError
      | Some data \<Rightarrow>
          if maskZeroInt c \<or> maskNegativeInt c then Inl UnboundLocalError
          else
            (case qBounds c of
               Some qb \<Rightarrow> Inl (cutByBounds qb)
             | None \<Rightarrow>
                 (case psiBounds c of
                    Some pb \<Rightarrow>
                      if length (hd data) > 3 then Inl (cutByBounds pb)
                      else Inr (ds\<lparr>preparedRows := Some data\<rparr>)
                  | None \<Rightarrow> Inr (ds\<lparr>preparedRows := Some data\<rparr>))))"

text \<open>A setting that is one value or a list of values.\<close>

datatype 'a setting = Single 'a | Several "'a list"

text \<open>\<^verbatim>\<open>fixLength\<close> in \<^verbatim>\<open>checkParameters\<close>, with \<open>n\<close> for
  \<^verbatim>\<open>len(self.model)\<close>.\<close>

definition fixLength :: "nat \<Rightarrow> 'a setting \<Rightarrow> pyerr + 'a list" where
  "fixLength n v =
     (case v of
        Single x \<Rightarrow> Inr (replicate n x)
      | Several xs \<Rightarrow>
          if length xs > n then Inr (take n xs)
          else if length xs < n then
            (if xs = [] then Inl IndexError
             else Inr (xs @ replicate (n - length xs) (hd xs)))
          else Inr xs)"

text \<open>\<^verbatim>\<open>Sphere.updateParamBounds\<close> on a list of bounds; \<open>vr\<close> is the
  \<^verbatim>\<open>valueRange\<close> of the radius before, the result the one after.\<close>

definition updateParamBounds :: "real \<times> real \<Rightarrow> real list \<Rightarrow> real \<times> real" where
  "updateParamBounds vr bounds =
     (if length bounds < 1 then vr
      else
        (let b = (if length bounds = 1 then fst vr # bounds
                  else if length bounds > 2 then take 2 bounds else bounds)
         in (amin b, amax b)))"

record checked =
  histogramBins :: "nat list"
  histogramXScale :: "string list"
  radiusRange :: "real \<times> real"

definition checkParameters ::
  "nat \<Rightarrow> nat setting \<Rightarrow> string setting \<Rightarrow> real \<times> real \<Rightarrow> real list \<Rightarrow> pyerr + checked" where
  "checkParameters n bins xscale vr contribParamBounds =
     (case fixLength n bins of
        Inl err \<Rightarrow> Inl err
      | Inr bs \<Rightarrow>
          (case fixLength n xscale of
             Inl err \<Rightarrow> Inl err
           | Inr xs \<Rightarrow>
               Inr \<lparr>histogramBins = bs, histogramXScale = xs,
                    radiusRange = updateParamBounds vr contribParamBounds\<rparr>))"

text \<open>The part of the constructor of \<^verbatim>\<open>McSAS\<close> before \<^verbatim>\<open>analyse\<close>:
  \<^verbatim>\<open>setData\<close>, which also sets \<^verbatim>\<open>contribParamBounds\<close> to the list of the
  size bounds, \<^verbatim>\<open>clipDataset\<close>, the sphere as the model (one parameter) and
  \<^verbatim>\<open>checkParameters\<close>.\<close>

definition construct ::
  "(array2 option \<Rightarrow> pyerr option) \<Rightarrow> kwargs \<Rightarrow> clipping \<Rightarrow> nat setting \<Rightarrow> string setting
     \<Rightarrow> real \<times> real \<Rightarrow> pyerr + dataset \<times> checked" where
  "construct base kw c bins xscale vr =
     (case setData base kw of
        Inl err \<Rightarrow> Inl err
      | Inr ds \<Rightarrow>
          (case clipDataset c ds of
             Inl err \<Rightarrow> Inl err
           | Inr ds' \<Rightarrow>
               (case checkParameters 1 bins xscale vr
                       [fst (sizeBounds ds), snd (sizeBounds ds)] of
                  Inl err \<Rightarrow> Inl err
                | Inr ch \<Rightarrow> Inr (ds', ch))))"

text \<open>The array that \<^verbatim>\<open>setData\<close> builds from q, the intensity and the
  uncertainty.\<close>

definition threeColumns :: "vec \<Rightarrow> vec \<Rightarrow> vec \<Rightarrow> array2" where
  "threeColumns q i s = map (\<lambda>k. [q ! k, i ! k, s ! k]) [0..<length q]"

text \<open>The default settings of \<^verbatim>\<open>McSASParameters\<close> for the clipping.\<close>

definition noClipping :: clipping where
  "noClipping =
     \<lparr>maskZeroInt = False, maskNegativeInt = False, qBounds = None, psiBounds = None\<rparr>"

subsection \<open>histogram: the observability limit of a bin\<close>

text \<open>\<^verbatim>\<open>x[mask]\<close>.\<close>

definition masked :: "bool list \<Rightarrow> 'a list \<Rightarrow> 'a list" where
  "masked m xs = map snd (filter fst (zip m xs))"

text \<open>\<^verbatim>\<open>binMask = (rset >= lo) * (rset < hi)\<close>.\<close>

definition binMask :: "real \<Rightarrow> real \<Rightarrow> vec \<Rightarrow> bool list" where
  "binMask lo hi rs = map (\<lambda>r. lo \<le> r \<and> r < hi) rs"

text \<open>What the first half of \<^verbatim>\<open>histogram\<close> has computed for one repetition and
  one parameter: the values of the parameter and, per contribution, the volume and
  number fractions and the minimum required volume and number.\<close>

record repStats =
  paramValues :: vec
  volumeFraction :: "npfloat list"
  numberFraction :: "npfloat list"
  minReqVol :: "npfloat list"
  minReqNum :: "npfloat list"

text \<open>\<^verbatim>\<open>minReqVolBin[bini, ri]\<close> for the bin from \<open>lo\<close> to \<open>hi\<close>: zero for a bin
  without contributions, otherwise the mean over the contributions in the bin.\<close>

definition minReqBin :: "real \<Rightarrow> real \<Rightarrow> vec \<Rightarrow> npfloat list \<Rightarrow> npfloat" where
  "minReqBin lo hi rs mr =
     (let m = binMask lo hi rs in
      if \<not> (True \<in> set m) then Fin 0 else fmean (masked m mr))"

text \<open>\<^verbatim>\<open>volHistRepY[bini, ri]\<close> and \<^verbatim>\<open>numHistRepY[bini, ri]\<close>: the sums of
  the fractions in the bin, both set to zero when the sum of the volume fractions is
  not a number.\<close>

definition histRepY :: "real \<Rightarrow> real \<Rightarrow> repStats \<Rightarrow> npfloat \<times> npfloat" where
  "histRepY lo hi r =
     (let m = binMask lo hi (paramValues r);
          v = fsum (masked m (volumeFraction r));
          n = fsum (masked m (numberFraction r))
      in if v = NaN then (Fin 0, Fin 0) else (v, n))"

text \<open>\<^verbatim>\<open>numpy.linspace(a, b, k)\<close> and the edges of the bins for a parameter with
  the range \<open>vr\<close> and \<open>nb\<close> bins, linear for the scale \<^verbatim>\<open>lin\<close> and logarithmic
  otherwise.\<close>

definition linspace :: "real \<Rightarrow> real \<Rightarrow> nat \<Rightarrow> vec" where
  "linspace a b k = map (\<lambda>i. a + (b - a) * real i / real (k - 1)) [0..<k]"

definition histogramXLowerEdge :: "string \<Rightarrow> real \<times> real \<Rightarrow> nat \<Rightarrow> vec" where
  "histogramXLowerEdge scale vr nb =
     (if scale = ''lin''
      then linspace (min (fst vr) (snd vr)) (max (fst vr) (snd vr)) (nb + 1)
      else map (\<lambda>x. 10 powr x)
             (linspace (log 10 (min (fst vr) (snd vr))) (log 10 (max (fst vr) (snd vr)))
                (nb + 1)))"

text \<open>\<^verbatim>\<open>vb = minReqVolBin[bini, :]\<close> and \<^verbatim>\<open>nb = minReqNumBin[bini, :]\<close>,
  the values of one bin over the repetitions, as the loop over the repetitions and the
  bins has filled them in.\<close>

definition minReqVolBin :: "vec \<Rightarrow> repStats list \<Rightarrow> nat \<Rightarrow> npfloat list" where
  "minReqVolBin edges reps bini =
     map (\<lambda>r. minReqBin (edges ! bini) (edges ! (bini + 1)) (paramValues r) (minReqVol r)) reps"

definition minReqNumBin :: "vec \<Rightarrow> repStats list \<Rightarrow> nat \<Rightarrow> npfloat list" where
  "minReqNumBin edges reps bini =
     map (\<lambda>r. minReqBin (edges ! bini) (edges ! (bini + 1)) (paramValues r) (minReqNum r)) reps"

text \<open>The two assignments in the body of the loop over the bins:
  \<^verbatim>\<open>volHistMinReq[bini] = vb[vb < inf].max()\<close> and
  \<^verbatim>\<open>numHistMinReq[bini] = nb[vb < inf].max()\<close>; the second one also selects by
  \<^verbatim>\<open>vb\<close>. An empty selection raises ValueError.\<close>

definition volLimit :: "vec \<Rightarrow> repStats list \<Rightarrow> nat \<Rightarrow> pyerr + npfloat" where
  "volLimit edges reps bini =
     (let vb = minReqVolBin edges reps bini
      in fmaxList (masked (map (\<lambda>v. fless v PInf) vb) vb))"

definition numLimit :: "vec \<Rightarrow> repStats list \<Rightarrow> nat \<Rightarrow> pyerr + npfloat" where
  "numLimit edges reps bini =
     (let vb = minReqVolBin edges reps bini; nb = minReqNumBin edges reps bini
      in fmaxList (masked (map (\<lambda>v. fless v PInf) vb) nb))"

text \<open>The second half of \<^verbatim>\<open>histogram\<close> for one parameter with the bin edges
  \<open>edges\<close>, one more than there are bins: the arrays \<^verbatim>\<open>volHistMinReq\<close> and
  \<^verbatim>\<open>numHistMinReq\<close>, filled in bin after bin. With one repetition or none,
  \<^verbatim>\<open>initHist\<close> has flattened the arrays of the repetitions: indexing them
  by bin and repetition raises IndexError, and without a bin, where nothing is indexed,
  their mean along the second axis raises after the loop.\<close>

definition histMinReq :: "vec \<Rightarrow> repStats list \<Rightarrow> pyerr + (npfloat \<times> npfloat) list" where
  "histMinReq edges reps =
     (if length reps \<le> 1
      then Inl (if length edges - 1 = 0 then AxisError else IndexError)
      else sequenceE
             (map (\<lambda>bini. case volLimit edges reps bini of
                             Inl err \<Rightarrow> Inl err
                           | Inr v \<Rightarrow> (case numLimit edges reps bini of
                                         Inl err \<Rightarrow> Inl err
                                       | Inr n \<Rightarrow> Inr (v, n)))
                  [0..<length edges - 1]))"


definition numHistMinReq :: "vec \<Rightarrow> repStats list \<Rightarrow> pyerr + npfloat list" where
  "numHistMinReq edges reps = map_sum id (map snd) (histMinReq edges reps)"

subsection \<open>Recomputing the total from scratch\<close>

text \<open>The intensities of the contributions of a state, one column each, computed from
  the rows of \<^verbatim>\<open>rset\<close> as the code does before the loop
  (\<^verbatim>\<open>vset = self.model.vol(rset)\<close>, then \<^verbatim>\<open>ffset**2\<close> times
  \<^verbatim>\<open>vset**2\<close>), and their sum over the contributions: the total intensity
  recomputed from scratch.\<close>

definition columns :: "env \<Rightarrow> prepared \<Rightarrow> mcstate \<Rightarrow> vec list" where
  "columns e d s =
     map (\<lambda>row. contribIntensity e d row (vol (model e) row)) (heap (py s) (rset s))"

definition fromScratch :: "env \<Rightarrow> prepared \<Rightarrow> mcstate \<Rightarrow> vec" where
  "fromScratch e d s = rowSums (length d) (columns e d s)"

text \<open>A state is consistent when \<^verbatim>\<open>vset\<close> holds the volumes of the rows, the
  cache (where there is one) holds the intensities of the contributions, and the
  running total is their sum.\<close>

definition consistent :: "env \<Rightarrow> mcsasParameters \<Rightarrow> prepared \<Rightarrow> mcstate \<Rightarrow> bool" where
  "consistent e P d s \<longleftrightarrow>
     vset s = map (vol (model e)) (heap (py s) (rset s))
     \<and> (\<not> lowMemoryFootprint P \<longrightarrow> iset s = columns e d s)
     \<and> it s = fromScratch e d s"

text \<open>The form factor of a model has one value for each q.\<close>

definition wellShaped :: "env \<Rightarrow> bool" where
  "wellShaped e \<longleftrightarrow> (\<forall>q r. length (ff (model e) q r) = length q)"

text \<open>The state of the low-memory mode that corresponds to a state of the cached mode:
  without the cache, and with a total that is flat once a trial has been accepted.\<close>

definition lowOf :: "mcstate \<Rightarrow> mcstate" where
  "lowOf s = s\<lparr>iset := [], itFlat := 0 < numMoves s\<rparr>"

subsection \<open>Inputs for the examples\<close>

text \<open>A model with two parameters, the first of which is the compensated volume and the
  second the form factor at every q; optimisers that answer scaling one and background
  zero; a stream that draws the same vector every time; settings; and a state whose
  heap holds one array, at address 0.\<close>

definition exModel :: particleModel where
  "exModel =
     \<lparr>valueRanges = [(2, 10), (0, 5)], vol = (\<lambda>r. hd r),
      ff = (\<lambda>q r. map (\<lambda>x. r ! 1) q)\<rparr>"

definition exEnv :: "real list \<Rightarrow> env" where
  "exEnv draw =
     \<lparr>model = exModel, leastsq = (\<lambda>bg ob c s g. (Fin 1, Fin 0)),
      fmin = (\<lambda>bg ob c s g. (Fin 1, Fin 0)),
      uniformDraw = (\<lambda>k. draw), intDraw = (\<lambda>k. k)\<rparr>"

definition exParams :: "nat \<Rightarrow> mcsasParameters" where
  "exParams n =
     \<lparr>numContribs = n, maxIterations = 1, numReps = 1, convergenceCriterion = 1,
      startFromMinimum = False, maxRetries = 1, lowMemoryFootprint = False,
      priorsRows = 0, priorsViews = []\<rparr>"

definition exState :: "array2 \<Rightarrow> nat option \<Rightarrow> pystate" where
  "exState arr p =
     \<lparr>heap = (\<lambda>a. if a = 0 then arr else []), nextAddr = 1, upos = 0, ipos = 0,
      prior = p\<rparr>"

text \<open>Two data points with q = 1, 2, the intensity 4 and the uncertainty 1.\<close>

definition exData :: prepared where
  "exData = [(1, 4, 1), (2, 4, 1)]"

text \<open>A base class that raises nothing; two data points with q = 1, 2 and the intensity
  1, with a given uncertainty; and three repetitions with one contribution each, all in
  the bin from 0 to 2, whose minimum required volumes are infinite, 1 and not a
  number.\<close>

definition acceptingBase :: "array2 option \<Rightarrow> pyerr option" where
  "acceptingBase x = None"

definition exKwargs :: "vec \<Rightarrow> kwargs" where
  "exKwargs sigma =
     \<lparr>kwQ = Some [1, 2], kwI = Some [1, 1], kwIError = Some sigma, kwPsi = None,
      kwDataset = None\<rparr>"



definition resultsOf :: "pyerr + (analysis list \<times> pystate) \<Rightarrow> pyerr + analysis list" where
  "resultsOf r = map_sum id fst r"

definition heapAfter :: "nat \<Rightarrow> pyerr + ('a \<times> pystate) \<Rightarrow> pyerr + array2" where
  "heapAfter a r = map_sum id (\<lambda>(x, st). heap st a) r"

definition convergences :: "pyerr + repsEnd \<Rightarrow> npfloat list option" where
  "convergences r =
     (case r of Inr (Finished reps st) \<Rightarrow> Some (map repConvergence reps) | _ \<Rightarrow> None)"

section \<open>Properties\<close>

subsection \<open>Evaluating the examples\<close>

lemmas exdefs = exModel_def exEnv_def exParams_def exState_def exData_def

lemmas evaldefs = mcLoop.simps mcSearch_def mcFit_def seed_def alloc_def priorSize_def arraySize_def
  mcInit_def colQ_def colI_def colE_def contribIntensity_def rowSums_def smear_def
  sumSquares_def amax_def amin_def optimScalingAndBackground_def csqr_v1_def mcStep_def
  randUniform_def oldIntensity_def replaceIn_def vstestOf_def accept_def Let_def
  normalised_def fsub_def fsum_def

lemma sqrt_25: "sqrt 25 = 5"
  by (rule real_sqrt_unique) auto

lemma fmul_NaN [simp]: "fmul x NaN = NaN"
  by (cases x) auto

lemma fadd_NaN [simp]: "fadd x NaN = NaN"
  by (cases x) auto

lemma fadd_NaN_left [simp]: "fadd NaN x = NaN"
  by (cases x) auto

lemmas rundefs = analyse_def priorLen_def repetitions.simps choosePrior_def attempts.simps
  assignRows_def assignIntensity_def analysisOf_def fmean_def fstd_def

subsection \<open>The initial set\<close>

text \<open>Every prior of positive size is taken as it is, whatever
  \<^verbatim>\<open>McSASParameters.numContribs\<close> says.\<close>

lemma seed_takes_prior:
  assumes "prior st = Some a" and "priorSize st \<noteq> 0" and "a < nextAddr st"
  shows "\<exists>st'. seed e P q st = Inr (length (heap st a), a, st') \<and> heap st' a = heap st a"
  using assms
  by (auto simp: seed_def alloc_def priorSize_def arraySize_def Let_def)

text \<open>
  Claim C1: seeded from a non-empty prior of p rows with the target numContribs = N, the
  initial set has exactly N rows (the prior when p = N, the prior followed by random
  duplicates when p < N, a random subsample when p > N).

  The code does not do that. The branch \<^verbatim>\<open>elif prior.shape[0] != 0\<close> comes
  first and holds for every non-empty prior: it sets the local
  \<^verbatim>\<open>numContribs\<close> to p and takes the prior as it is, so that the branches that
  duplicate and subsample are never reached. Here a prior of three rows with N = 2
  gives three rows and the local count 3, in the array of the prior itself (address 0),
  and a prior of one row with N = 2 gives one row.
\<close>

theorem seed_prior_keeps_its_size:
  "seed (exEnv [1, 1]) (exParams 2) [1] (exState [[1, 1], [2, 1], [3, 1]] (Some 0))
     = Inr (3, 0, snd (alloc [[0, 0], [0, 0]] (exState [[1, 1], [2, 1], [3, 1]] (Some 0))))
   \<and> seedRows (exEnv [1, 1]) (exParams 2) [1] (exState [[1, 1], [2, 1], [3, 1]] (Some 0))
     = Inr [[1, 1], [2, 1], [3, 1]]
   \<and> seedRows (exEnv [1, 1]) (exParams 2) [1] (exState [[7, 1]] (Some 0))
     = Inr [[7, 1]]"
  by (simp add: seedRows_def seed_def exdefs alloc_def priorSize_def arraySize_def
        numeral_2_eq_2)

text \<open>
  Claim C7: with \<^verbatim>\<open>startFromMinimum\<close> and no prior, every contribution starts at
  the lower non-zero bound of each parameter, with \<^verbatim>\<open>pi / q.max()\<close> in place of
  a lower bound of zero.

  The code multiplies that value by one half. With the ranges (2, 10) and (0, 5) and
  the largest q equal to 4, the rows are (1, pi / 8), not (2, pi / 4).
\<close>

theorem seed_minimum_is_half_bound:
  "seedRows (exEnv [1, 1]) ((exParams 2)\<lparr>startFromMinimum := True\<rparr>) [4]
      (exState [] None)
     = Inr [[1, pi / 8], [1, pi / 8]]"
  by (simp add: seedRows_def seed_def exdefs alloc_def priorSize_def arraySize_def
        startValue_def amax_def numeral_2_eq_2)

subsection \<open>The running total of the squared volumes\<close>

text \<open>
  Claim C3: the candidate total of the squared compensated volumes is
  \<^verbatim>\<open>vst - vset[ri]**2 + vtt**2\<close>, so that after an accepted replacement the
  running total is the sum of the squares over the current set.

  The code computes \<^verbatim>\<open>(sqrt(vst) - vset[ri])**2 + vtt**2\<close>. From the set with
  the volumes 3 and 4 (total 25) the trial with the volume 1 is accepted in place of the
  first contribution: the running total becomes the square of 5 - 3 plus 1, that is 5, while the squares of
  the volumes 1 and 4 sum to 17.
\<close>

theorem vst_after_accepted_step:
  "case mcSearch (exEnv [1, 1]) (exParams 2) [(1, 4, 1)]
          (exState [[3, 1], [4, 1]] (Some 0)) of
     Inl err \<Rightarrow> False
   | Inr (numIter, s) \<Rightarrow>
       numIter = 1 \<and> numMoves s = 1 \<and> vset s = [1, 4] \<and> vst s = 5
       \<and> sumSquares (vset s) = 17"
  by (simp add: evaldefs exdefs sqrt_25 power2_eq_square)

subsection \<open>The repetitions and their attempts\<close>


text \<open>A repetition leaves its loop through the condition only with a chi-squared that
  is not above the criterion: at most the criterion, or not a number.\<close>

lemma attempts_converged:
  "attempts e P d nt st = Inr (Converged n rep st')
     \<Longrightarrow> \<not> fless (Fin (convergenceCriterion P)) (repConvergence rep)"
proof (induction e P d nt st rule: attempts.induct)
  case (1 e P d nt st)
  from "1.prems" show ?case
    apply (subst (asm) attempts.simps)
    apply (auto split: sum.splits prod.splits if_splits dest: "1.IH")
    done
qed

lemma repetitions_finished:
  "repetitions e P d np nr flag acc st = Inr (Finished reps st') \<Longrightarrow>
   list_all (\<lambda>r. \<not> fless (Fin (convergenceCriterion P)) (repConvergence r)) acc \<Longrightarrow>
   list_all (\<lambda>r. \<not> fless (Fin (convergenceCriterion P)) (repConvergence r)) reps
   \<and> length reps = length acc + (numReps P - nr)"
proof (induction e P d np nr flag acc st rule: repetitions.induct)
  case (1 e P d np nr flag acc st)
  show ?case
  proof (cases "nr < numReps P")
    case False
    with "1.prems" show ?thesis by (subst (asm) repetitions.simps) auto
  next
    case True
    from "1.prems"(1) True obtain flag' st1 nt rep st2 where
      cp: "choosePrior P np flag nr st = Inr (flag', st1)" and
      a: "attempts e P d 0 st1 = Inr (Converged nt rep st2)" and
      r: "repetitions e P d np (nr + 1) flag' (acc @ [rep]) st2 = Inr (Finished reps st')"
      unfolding repetitions.simps[of e P d np nr flag acc st]
      by (auto split: sum.splits attemptsEnd.splits prod.splits)
    have c: "\<not> fless (Fin (convergenceCriterion P)) (repConvergence rep)"
      using attempts_converged[OF a] .
    have "list_all (\<lambda>r. \<not> fless (Fin (convergenceCriterion P)) (repConvergence r)) (acc @ [rep])"
      using "1.prems"(2) c by simp
    from "1.IH"[OF True cp refl a refl r this] True show ?thesis by auto
  qed
qed





lemma analyse_result_not_above:
  assumes "analyse e P d result st = Inr (result', st')" and "result' \<noteq> result"
  shows "\<exists>reps. repetitions e P d (priorLen st \<le> 0) 0 False [] st = Inr (Finished reps st')
           \<and> result' = result @ [analysisOf d reps] \<and> length reps = numReps P
           \<and> list_all (\<lambda>r. \<not> fless (Fin (convergenceCriterion P)) (repConvergence r)) reps"
proof -
  from assms obtain reps where
    f: "repetitions e P d (priorLen st \<le> 0) 0 False [] st = Inr (Finished reps st')"
    and r: "result' = result @ [analysisOf d reps]"
    by (auto simp: analyse_def split: sum.splits repsEnd.splits)
  from repetitions_finished[OF f] f r show ?thesis by auto
qed

text \<open>Two runs of the examples. With every trial equal to (1, 2) and the prior ((1, 1)),
  the first trial is accepted and the fit converges at once. With every draw equal to
  (1, 1) and no prior, no trial is ever accepted and chi-squared stays at 9.\<close>

lemma ex_converging_fit:
  "\<exists>res st'. mcFit (exEnv [1, 2]) (exParams 1) [(1, 4, 1)] (exState [[1, 1]] (Some 0))
       = Inr (res, st')
     \<and> fitRset res = 0 \<and> fitConval res = Fin 0 \<and> heap st' 0 = [[1, 2]]"
  by (simp add: evaldefs exdefs)



text \<open>
  Claim C5: when \<^verbatim>\<open>analyse\<close> produces a result record, the chi-squared of every
  repetition, as recomputed by the last call of
  \<^verbatim>\<open>optimScalingAndBackground\<close> in \<^verbatim>\<open>mcFit\<close>, is at most
  \<^verbatim>\<open>convergenceCriterion\<close>.

  The loops \<^verbatim>\<open>while conval > convergenceCriterion\<close> of \<^verbatim>\<open>mcFit\<close>
  and \<^verbatim>\<open>while convergence > convergenceCriterion\<close> of \<^verbatim>\<open>analyse\<close>
  also end on a chi-squared that is not a number, which is not at most the criterion.
  With a prior of one contribution whose compensated volume is zero, the total
  intensity and the total of the squared volumes are zero, their quotient is not a
  number, and neither is chi-squared, whatever the two optimisers return: the
  repetition counts as converged and the record is stored, with a fitted intensity
  that is not a number.
\<close>

theorem nan_chi_squared_is_stored:
  "convergences (repetitions ((exEnv [1, 1])\<lparr>leastsq := l, fmin := f\<rparr>) (exParams 1) exData
       False 0 False [] (exState [[0, 1]] (Some 0))) = Some [NaN]
   \<and> resultsOf (analyse ((exEnv [1, 1])\<lparr>leastsq := l, fmin := f\<rparr>) (exParams 1) exData []
       (exState [[0, 1]] (Some 0)))
     = Inr [\<lparr>contribs = [[[0, 1]]], fitIntMean = [NaN, NaN], fitIntStd = [NaN, NaN],
              fitQ = [1, 2], numIterMean = Fin 0\<rparr>]"
  by (simp add: convergences_def resultsOf_def rundefs evaldefs exdefs)






lemma randUniform_one:
  "randUniform e (Suc 0) st = ([uniformDraw e (upos st)], st\<lparr>upos := upos st + 1\<rparr>)"
  by (simp add: randUniform_def)

lemma mcStepE:
  assumes "mcStep e P d nc s0 = Inr s'"
  obtains (accepted) old sct convalt where
      "oldIntensity e P d (s0\<lparr>py := (py s0)\<lparr>upos := upos (py s0) + 1\<rparr>\<rparr>) = Inr old"
      "ri s0 < length (vset s0)" "ri s0 < length (heap (py s0) (rset s0))" "nc \<noteq> 0"
      "fless convalt (conval s0)"
      "s' = (accept P (s0\<lparr>py := (py s0)\<lparr>upos := upos (py s0) + 1\<rparr>\<rparr>)
               (uniformDraw e (upos (py s0)))
               (vol (model e) (uniformDraw e (upos (py s0))))
               (contribIntensity e d (uniformDraw e (upos (py s0)))
                  (vol (model e) (uniformDraw e (upos (py s0)))))
               (replaceIn (it s0) old
                  (contribIntensity e d (uniformDraw e (upos (py s0)))
                     (vol (model e) (uniformDraw e (upos (py s0))))))
               (vstestOf (vst s0) (vset s0 ! ri s0)
                  (vol (model e) (uniformDraw e (upos (py s0)))))
               sct convalt)\<lparr>ri := (ri s0 + 1) mod nc\<rparr>"
    | (rejected) old where
      "oldIntensity e P d (s0\<lparr>py := (py s0)\<lparr>upos := upos (py s0) + 1\<rparr>\<rparr>) = Inr old"
      "nc \<noteq> 0"
      "s' = s0\<lparr>py := (py s0)\<lparr>upos := upos (py s0) + 1\<rparr>,
               numNotAccepted := numNotAccepted s0 + 1, ri := (ri s0 + 1) mod nc\<rparr>"
  using assms
  by (auto simp: mcStep_def randUniform_one Let_def smear_def
        split: sum.splits if_splits prod.splits)

subsection \<open>The running total of the intensity\<close>

lemma sum_list_update_real:
  "i < length xs \<Longrightarrow> sum_list (xs[i := y]) = sum_list xs - xs ! i + (y::real)"
  by (induction xs arbitrary: i) (auto split: nat.splits)

lemma rowSums_update:
  assumes "i < length cols" "length new = n" "length (cols ! i) = n"
  shows "rowSums n (cols[i := new]) = replaceIn (rowSums n cols) (cols ! i) new"
proof (rule nth_equalityI)
  show "length (rowSums n (cols[i := new])) = length (replaceIn (rowSums n cols) (cols ! i) new)"
    using assms by (simp add: rowSums_def replaceIn_def)
next
  fix j assume "j < length (rowSums n (cols[i := new]))"
  then have j: "j < n" by (simp add: rowSums_def)
  have "sum_list (map (\<lambda>c. c ! j) (cols[i := new]))
        = sum_list ((map (\<lambda>c. c ! j) cols)[i := new ! j])" by (simp add: map_update)
  also have "\<dots> = sum_list (map (\<lambda>c. c ! j) cols) - cols ! i ! j + new ! j"
    using assms(1) by (simp add: sum_list_update_real)
  finally show "rowSums n (cols[i := new]) ! j = replaceIn (rowSums n cols) (cols ! i) new ! j"
    using j assms by (simp add: rowSums_def replaceIn_def)
qed

lemma foldl_add_rowSums_aux:
  "length acc = n \<Longrightarrow> list_all (\<lambda>c. length c = n) cols \<Longrightarrow>
   foldl (\<lambda>acc c. map (\<lambda>(x, y). x + y) (zip acc c)) acc cols
     = map (\<lambda>j. acc ! j + sum_list (map (\<lambda>c. c ! j) cols)) [0..<n]"
proof (induction cols arbitrary: acc)
  case Nil
  then show ?case by (auto intro: nth_equalityI)
next
  case (Cons c cols)
  let ?a = "map (\<lambda>(x, y). x + y) (zip acc c)"
  have l: "length ?a = n" using Cons.prems by simp
  have "foldl (\<lambda>acc c. map (\<lambda>(x, y). x + y) (zip acc c)) acc (c # cols)
        = map (\<lambda>j. ?a ! j + sum_list (map (\<lambda>c. c ! j) cols)) [0..<n]"
    using Cons.IH[OF l] Cons.prems by simp
  also have "\<dots> = map (\<lambda>j. acc ! j + sum_list (map (\<lambda>c. c ! j) (c # cols))) [0..<n]"
    using Cons.prems by (auto simp: algebra_simps)
  finally show ?case .
qed

lemma foldl_add_rowSums:
  "list_all (\<lambda>c. length c = n) cols \<Longrightarrow>
   foldl (\<lambda>acc c. map (\<lambda>(x, y). x + y) (zip acc c)) (replicate n 0) cols = rowSums n cols"
  using foldl_add_rowSums_aux[of "replicate n 0" n cols] by (simp add: rowSums_def)

lemma length_contribIntensity:
  "wellShaped e \<Longrightarrow> length (contribIntensity e d r v) = length d"
  by (simp add: wellShaped_def contribIntensity_def colQ_def)

lemma zip_map_same:
  "map (\<lambda>(row, v). g row v) (zip rs (map f rs)) = map (\<lambda>row. g row (f row)) rs"
  by (induction rs) auto

lemma mcInit_consistent:
  assumes "wellShaped e" "mcInit e P d r st = Inr s0"
  shows "consistent e P d s0"
proof -
  let ?cols = "map (\<lambda>row. contribIntensity e d row (vol (model e) row)) (heap st r)"
  have "list_all (\<lambda>c. length c = length d) ?cols"
    using assms(1) by (auto simp: list_all_iff length_contribIntensity)
  from foldl_add_rowSums[OF this] assms(2) show ?thesis
    by (auto simp: mcInit_def consistent_def columns_def fromScratch_def smear_def Let_def
          zip_map_same split: if_splits prod.splits)
qed

lemma length_columns: "length (columns e d s) = length (heap (py s) (rset s))"
  by (simp add: columns_def)

lemma columns_nth:
  "i < length (heap (py s) (rset s)) \<Longrightarrow>
   columns e d s ! i
     = contribIntensity e d (heap (py s) (rset s) ! i) (vol (model e) (heap (py s) (rset s) ! i))"
  by (simp add: columns_def)

lemma oldIntensity_consistent:
  assumes "consistent e P d s" "oldIntensity e P d s = Inr old"
  shows "ri s < length (columns e d s) \<and> old = columns e d s ! ri s"
  using assms
  by (auto simp: consistent_def oldIntensity_def length_columns columns_nth split: if_splits)

lemma columns_accept:
  "columns e d ((accept P s rt vtt itt itest vstest sct convalt)\<lparr>ri := k\<rparr>)
     = (columns e d s)[ri s := contribIntensity e d rt (vol (model e) rt)]"
  by (simp add: columns_def accept_def map_update)

lemma mcStep_consistent:
  assumes w: "wellShaped e" and c: "consistent e P d s" and m: "mcStep e P d nc s = Inr s'"
  shows "consistent e P d s'"
  using m
proof (cases rule: mcStepE)
  case (rejected old)
  with c show ?thesis by (simp add: consistent_def columns_def fromScratch_def)
next
  case (accepted old sct convalt)
  let ?s1 = "s\<lparr>py := (py s)\<lparr>upos := upos (py s) + 1\<rparr>\<rparr>"
  let ?rt = "uniformDraw e (upos (py s))"
  let ?itt = "contribIntensity e d ?rt (vol (model e) ?rt)"
  have c1: "consistent e P d ?s1"
    using c by (simp add: consistent_def columns_def fromScratch_def)
  from oldIntensity_consistent[OF c1 accepted(1)]
  have o: "ri s < length (columns e d ?s1)" "old = columns e d ?s1 ! ri s" by simp_all
  have lc: "length (columns e d ?s1 ! ri s) = length d"
    using o(1) w accepted(3) by (simp add: columns_nth length_contribIntensity)
  have li: "length ?itt = length d" using w by (rule length_contribIntensity)
  have cols: "columns e d s' = (columns e d ?s1)[ri s := ?itt]"
    unfolding accepted(6) by (subst columns_accept) simp
  have it': "it s' = replaceIn (it s) old ?itt"
    unfolding accepted(6) by (simp add: accept_def)
  have "it s' = fromScratch e d s'"
    unfolding it' fromScratch_def cols
    using rowSums_update[OF o(1) li lc] c1 o(2) by (simp add: consistent_def fromScratch_def)
  moreover have "vset s' = map (vol (model e)) (heap (py s') (rset s'))"
    unfolding accepted(6) using c by (simp add: accept_def consistent_def map_update)
  moreover have "\<not> lowMemoryFootprint P \<longrightarrow> iset s' = columns e d s'"
    unfolding cols unfolding accepted(6) using c1 by (simp add: accept_def consistent_def)
  ultimately show ?thesis by (simp add: consistent_def)
qed

lemma mcLoop_consistent:
  "wellShaped e \<Longrightarrow> consistent e P d s \<Longrightarrow> mcLoop e P d nc k s = Inr (k', s')
     \<Longrightarrow> consistent e P d s'"
proof (induction e P d nc k s rule: mcLoop.induct)
  case (1 e P d nc numIter s)
  show ?case
  proof (cases "fless (Fin (convergenceCriterion P)) (conval s) \<and> numIter < maxIterations P")
    case False
    with "1.prems" show ?thesis by (simp add: mcLoop.simps[of e P d nc numIter s])
  next
    case True
    with "1.prems"(3) obtain s1 where
      m: "mcStep e P d nc s = Inr s1" and l: "mcLoop e P d nc (numIter + 1) s1 = Inr (k', s')"
      by (auto simp: mcLoop.simps[of e P d nc numIter s] split: sum.splits)
    from "1.IH"[OF True m "1.prems"(1) mcStep_consistent[OF "1.prems"(1,2) m] l]
    show ?thesis .
  qed
qed

text \<open>In the exact arithmetic of the model, the total that \<^verbatim>\<open>mcFit\<close> maintains
  by subtracting and adding is, when the loop ends, the sum of the intensities of the
  contributions recomputed from the rows of \<^verbatim>\<open>rset\<close>, in both modes, provided
  that the form factor has one value per q.\<close>

lemma mcSearch_consistent:
  assumes "wellShaped e" "mcSearch e P d st = Inr (k, s)"
  shows "consistent e P d s"
  using assms
  by (auto simp: mcSearch_def split: sum.splits prod.splits
        intro: mcLoop_consistent mcInit_consistent)

subsection \<open>The two modes\<close>

lemma seed_nonempty:
  assumes "0 < numContribs P" "seed e P q st = Inr (nc, r, st')"
  shows "heap st' r \<noteq> []"
  using assms
  by (auto simp: seed_def alloc_def randUniform_def randint_def priorSize_def arraySize_def
        Let_def split: if_splits sum.splits option.splits prod.splits)

lemma seed_lowmem:
  "seed e (P\<lparr>lowMemoryFootprint := b\<rparr>) q st = seed e P q st"
  by (simp add: seed_def Let_def split: prod.splits option.splits sum.splits)

lemma mcInit_sim:
  assumes "wellShaped e" "heap st r \<noteq> []"
  shows "mcInit e (P\<lparr>lowMemoryFootprint := True\<rparr>) d r st
         = map_sum id lowOf (mcInit e (P\<lparr>lowMemoryFootprint := False\<rparr>) d r st)"
proof -
  let ?cols = "map (\<lambda>row. contribIntensity e d row (vol (model e) row)) (heap st r)"
  have "list_all (\<lambda>c. length c = length d) ?cols"
    using assms(1) by (auto simp: list_all_iff length_contribIntensity)
  from foldl_add_rowSums[OF this] assms(2) show ?thesis
    by (simp add: mcInit_def Let_def lowOf_def zip_map_same split: prod.splits)
qed

lemma oldIntensity_sim:
  assumes "consistent e (P\<lparr>lowMemoryFootprint := False\<rparr>) d s"
  shows "oldIntensity e (P\<lparr>lowMemoryFootprint := True\<rparr>) d
           ((lowOf s)\<lparr>py := (py s)\<lparr>upos := u\<rparr>\<rparr>)
         = oldIntensity e (P\<lparr>lowMemoryFootprint := False\<rparr>) d (s\<lparr>py := (py s)\<lparr>upos := u\<rparr>\<rparr>)"
  using assms
  by (auto simp: oldIntensity_def consistent_def length_columns columns_nth lowOf_def)

lemma mcStep_sim:
  assumes "consistent e (P\<lparr>lowMemoryFootprint := False\<rparr>) d s"
  shows "mcStep e (P\<lparr>lowMemoryFootprint := True\<rparr>) d nc (lowOf s)
         = map_sum id lowOf (mcStep e (P\<lparr>lowMemoryFootprint := False\<rparr>) d nc s)"
proof -
  let ?py1 = "(py s)\<lparr>upos := Suc (upos (py s))\<rparr>"
  have eq: "oldIntensity e (P\<lparr>lowMemoryFootprint := True\<rparr>) d ((lowOf s)\<lparr>py := ?py1\<rparr>)
            = oldIntensity e (P\<lparr>lowMemoryFootprint := False\<rparr>) d (s\<lparr>py := ?py1\<rparr>)"
    using oldIntensity_sim[OF assms, of "Suc (upos (py s))"] by simp
  have l: "py (lowOf s) = py s" "it (lowOf s) = it s" "vset (lowOf s) = vset s"
    "vst (lowOf s) = vst s" "sc (lowOf s) = sc s" "conval (lowOf s) = conval s"
    "ri (lowOf s) = ri s" "rset (lowOf s) = rset s"
    by (simp_all add: lowOf_def)
  show ?thesis
  proof (cases "oldIntensity e (P\<lparr>lowMemoryFootprint := False\<rparr>) d (s\<lparr>py := ?py1\<rparr>)")
    case (Inl err)
    with eq show ?thesis by (simp add: mcStep_def randUniform_one Let_def l)
  next
    case (Inr old)
    with eq show ?thesis
      by (simp add: mcStep_def randUniform_one Let_def l accept_def lowOf_def
            split: prod.splits)
  qed
qed

lemma mcLoop_sim:
  "wellShaped e \<Longrightarrow> \<not> lowMemoryFootprint Pc \<Longrightarrow> consistent e Pc d s \<Longrightarrow>
   mcLoop e (Pc\<lparr>lowMemoryFootprint := True\<rparr>) d nc k (lowOf s)
     = map_sum id (\<lambda>(k, s). (k, lowOf s)) (mcLoop e Pc d nc k s)"
proof (induction e Pc d nc k s rule: mcLoop.induct)
  case (1 e P d nc numIter s)
  have P: "P\<lparr>lowMemoryFootprint := False\<rparr> = P" using "1.prems"(2) by simp
  have c: "consistent e (P\<lparr>lowMemoryFootprint := False\<rparr>) d s" using "1.prems"(3) P by simp
  have cv: "conval (lowOf s) = conval s" by (simp add: lowOf_def)
  show ?case
  proof (cases "fless (Fin (convergenceCriterion P)) (conval s) \<and> numIter < maxIterations P")
    case False
    then show ?thesis
      by (auto simp: cv mcLoop.simps[of e P d nc numIter s]
            mcLoop.simps[of e "P\<lparr>lowMemoryFootprint := True\<rparr>" d nc numIter "lowOf s"])
  next
    case True
    show ?thesis
    proof (cases "mcStep e P d nc s")
      case (Inl err)
      with True mcStep_sim[OF c, of nc] P show ?thesis
        by (auto simp: cv mcLoop.simps[of e P d nc numIter s]
              mcLoop.simps[of e "P\<lparr>lowMemoryFootprint := True\<rparr>" d nc numIter "lowOf s"])
    next
      case (Inr s1)
      have c1: "consistent e P d s1"
        using mcStep_consistent[OF "1.prems"(1,3) Inr] .
      from "1.IH"[OF True Inr "1.prems"(1,2) c1] True Inr mcStep_sim[OF c, of nc] P
      show ?thesis
        by (auto simp: cv mcLoop.simps[of e P d nc numIter s]
              mcLoop.simps[of e "P\<lparr>lowMemoryFootprint := True\<rparr>" d nc numIter "lowOf s"])
    qed
  qed
qed

text \<open>In the exact arithmetic of the model and with at least one contribution, the
  search of the low-memory mode ends in the state of the cached mode, its cache and the
  shape of the total apart: the two modes take the same decisions.\<close>

lemma mcSearch_sim:
  assumes "wellShaped e" "0 < numContribs P"
  shows "mcSearch e (P\<lparr>lowMemoryFootprint := True\<rparr>) d st
         = map_sum id (\<lambda>(k, s). (k, lowOf s))
             (mcSearch e (P\<lparr>lowMemoryFootprint := False\<rparr>) d st)"
proof (cases "seed e P (colQ d) st")
  case (Inl err)
  then show ?thesis by (simp add: mcSearch_def seed_lowmem)
next
  case (Inr x)
  obtain nc r st1 where x: "x = (nc, r, st1)" by (cases x) auto
  have ne: "heap st1 r \<noteq> []" using seed_nonempty[OF assms(2)] Inr x by simp
  show ?thesis
  proof (cases "mcInit e (P\<lparr>lowMemoryFootprint := False\<rparr>) d r st1")
    case (Inl err)
    with Inr x mcInit_sim[OF assms(1) ne, of P d] show ?thesis
      by (simp add: mcSearch_def seed_lowmem)
  next
    case i: (Inr s0)
    have c: "consistent e (P\<lparr>lowMemoryFootprint := False\<rparr>) d s0"
      using mcInit_consistent[OF assms(1) i] .
    from mcLoop_sim[OF assms(1) _ c, of nc 0] Inr x i mcInit_sim[OF assms(1) ne, of P d]
    show ?thesis by (simp add: mcSearch_def seed_lowmem)
  qed
qed




subsection \<open>The arrays that mcFit writes\<close>

lemma mcStep_frame:
  assumes "mcStep e P d nc s = Inr s'"
  shows "rset s' = rset s \<and> nextAddr (py s') = nextAddr (py s) \<and> prior (py s') = prior (py s)
       \<and> (\<forall>b. b \<noteq> rset s \<longrightarrow> heap (py s') b = heap (py s) b)"
  using assms by (cases rule: mcStepE) (simp_all add: accept_def)

lemma mcStep_writes:
  assumes "mcStep e P d nc s = Inr s'"
  shows "(numMoves s' = numMoves s + 1
          \<and> heap (py s') (rset s)
            = (heap (py s) (rset s))[ri s := uniformDraw e (upos (py s))])
       \<or> (numMoves s' = numMoves s \<and> heap (py s') = heap (py s))"
  using assms by (cases rule: mcStepE) (simp_all add: accept_def)

lemma mcLoop_frame:
  "mcLoop e P d nc k s = Inr (k', s') \<Longrightarrow>
   rset s' = rset s \<and> nextAddr (py s') = nextAddr (py s) \<and> prior (py s') = prior (py s)
     \<and> (\<forall>b. b \<noteq> rset s \<longrightarrow> heap (py s') b = heap (py s) b)"
proof (induction e P d nc k s rule: mcLoop.induct)
  case (1 e P d nc numIter s)
  show ?case
  proof (cases "fless (Fin (convergenceCriterion P)) (conval s) \<and> numIter < maxIterations P")
    case False
    with "1.prems" show ?thesis by (auto simp: mcLoop.simps[of e P d nc numIter s])
  next
    case True
    with "1.prems" obtain s1 where
      m: "mcStep e P d nc s = Inr s1" and l: "mcLoop e P d nc (numIter + 1) s1 = Inr (k', s')"
      by (auto simp: mcLoop.simps[of e P d nc numIter s] split: sum.splits)
    from "1.IH"[OF True m l] mcStep_frame[OF m] show ?thesis by auto
  qed
qed

lemma mcInit_frame: "mcInit e P d r st = Inr s0 \<Longrightarrow> py s0 = st \<and> rset s0 = r"
  by (auto simp: mcInit_def Let_def split: if_splits prod.splits)

lemma seed_frame:
  assumes "seed e P q st = Inr (nc, r, st')"
  shows "prior st' = prior st \<and> nextAddr st \<le> nextAddr st'
       \<and> (\<forall>b < nextAddr st. heap st' b = heap st b)
       \<and> (priorSize st = 0 \<longrightarrow> nextAddr st \<le> r)
       \<and> (priorSize st \<noteq> 0 \<longrightarrow> prior st = Some r)"
  using assms
  by (auto simp: seed_def alloc_def randUniform_def randint_def priorSize_def arraySize_def
        Let_def split: if_splits sum.splits option.splits prod.splits)

lemma mcSearch_frame:
  assumes "mcSearch e P d st = Inr (k, s)"
  shows "prior (py s) = prior st \<and> nextAddr st \<le> nextAddr (py s)
       \<and> (priorSize st = 0 \<longrightarrow> (\<forall>b < nextAddr st. heap (py s) b = heap st b))
       \<and> (priorSize st \<noteq> 0 \<longrightarrow> prior st = Some (rset s)
            \<and> (\<forall>b < nextAddr st. b \<noteq> rset s \<longrightarrow> heap (py s) b = heap st b))"
proof -
  from assms obtain nc r st1 s0 where
    sd: "seed e P (colQ d) st = Inr (nc, r, st1)" and i: "mcInit e P d r st1 = Inr s0"
    and l: "mcLoop e P d nc 0 s0 = Inr (k, s)"
    by (auto simp: mcSearch_def split: sum.splits prod.splits)
  from seed_frame[OF sd] mcInit_frame[OF i] mcLoop_frame[OF l] show ?thesis
    by (auto simp: not_le)
qed

lemma mcFit_frame:
  assumes "mcFit e P d st = Inr (res, st')"
  shows "prior st' = prior st \<and> nextAddr st \<le> nextAddr st'
       \<and> (priorSize st = 0 \<longrightarrow> (\<forall>b < nextAddr st. heap st' b = heap st b))
       \<and> (priorSize st \<noteq> 0 \<longrightarrow> prior st = Some (fitRset res)
            \<and> (\<forall>b < nextAddr st. b \<noteq> fitRset res \<longrightarrow> heap st' b = heap st b))"
proof -
  from assms obtain k s where m: "mcSearch e P d st = Inr (k, s)"
    and r: "fitRset res = rset s" "st' = py s"
    by (auto simp: mcFit_def Let_def split: sum.splits prod.splits)
  from mcSearch_frame[OF m] r show ?thesis by simp
qed

lemma mcFit_next_seed:
  assumes "mcFit e P d st = Inr (res, st')" and "prior st = Some a" and "a < nextAddr st"
    and "priorSize st' \<noteq> 0"
  shows "seedRows e P2 q st' = Inr (heap st' a)"
proof -
  from mcFit_frame[OF assms(1)] assms(2,3)
  have p: "prior st' = Some a" and n: "a < nextAddr st'" by auto
  from seed_takes_prior[OF p assms(4) n, of e P2 q] show ?thesis
    by (auto simp: seedRows_def)
qed

text \<open>
  Claim C10: the optimiser never modifies a supplied prior; each repetition works on its
  own storage, so that accepted replacements leave the caller's prior arrays unchanged
  and repetitions share no mutable state.

  As stated the claim fails: \<^verbatim>\<open>rset = prior\<close> makes \<^verbatim>\<open>rset\<close> another
  name of the prior array, and \<^verbatim>\<open>rset[ri] = rt\<close> writes into it. The prior
  ((1, 1)) at address 0 holds ((1, 2)) after a call of \<^verbatim>\<open>mcFit\<close> that accepts
  one trial.
\<close>

theorem mcFit_changes_prior_counterexample:
  "heap (exState [[1, 1]] (Some 0)) 0 = [[1, 1]]
   \<and> heapAfter 0 (mcFit (exEnv [1, 2]) (exParams 1) [(1, 4, 1)] (exState [[1, 1]] (Some 0)))
       = Inr [[1, 2]]"
  using ex_converging_fit by (auto simp: heapAfter_def exdefs)

text \<open>
  Claim C10, amended: \<^verbatim>\<open>mcFit\<close> never rebinds
  \<^verbatim>\<open>McSASParameters.prior\<close>. Without a prior, or with one of size zero, it
  changes no array that existed before the call. With a prior of positive size the set
  that it works on and returns is the prior array itself, and it changes no other
  array that existed before the call. Every pass through the loop keeps the set in the
  same array and either accepts the trial, writing it into row \<^verbatim>\<open>ri\<close> of that
  array, or leaves every array as it is. The next call of \<^verbatim>\<open>mcFit\<close> with
  that prior, from the state that the call left, starts from the array as it is
  then.
\<close>

theorem mcFit_writes_its_prior:
  "(mcFit e P d st = Inr (res, st') \<longrightarrow>
      prior st' = prior st
      \<and> (priorSize st = 0 \<longrightarrow> (\<forall>b < nextAddr st. heap st' b = heap st b))
      \<and> (priorSize st \<noteq> 0 \<longrightarrow> prior st = Some (fitRset res)
            \<and> (\<forall>b < nextAddr st. b \<noteq> fitRset res \<longrightarrow> heap st' b = heap st b)))
   \<and> (mcStep e P d nc s = Inr s' \<longrightarrow>
        rset s' = rset s
        \<and> ((numMoves s' = numMoves s + 1
             \<and> heap (py s') (rset s)
               = (heap (py s) (rset s))[ri s := uniformDraw e (upos (py s))])
            \<or> (numMoves s' = numMoves s \<and> heap (py s') = heap (py s))))
   \<and> (mcFit e P d st = Inr (res, st') \<longrightarrow> prior st = Some a \<longrightarrow> a < nextAddr st
        \<longrightarrow> priorSize st' \<noteq> 0 \<longrightarrow> seedRows e P2 q st' = Inr (heap st' a))"
  using mcFit_frame[of e P d st res st'] mcStep_frame[of e P d nc s s']
    mcStep_writes[of e P d nc s s'] mcFit_next_seed[of e P d st res st' a P2 q]
  by blast


theorem mcFit_writes_its_prior_witness:
  "(\<exists>res st'. mcFit (exEnv [1, 2]) (exParams 1) [(1, 4, 1)] (exState [[1, 1]] (Some 0))
        = Inr (res, st')
      \<and> priorSize (exState [[1, 1]] (Some 0)) \<noteq> 0 \<and> prior st' = Some 0 \<and> fitRset res = 0
      \<and> heap st' 0 = [[1, 2]] \<and> priorSize st' \<noteq> 0
      \<and> seedRows (exEnv [1, 2]) (exParams 5) [1] st' = Inr [[1, 2]])
   \<and> (\<exists>s'. mcStep (exEnv [1, 2]) (exParams 1) [(1, 4, 1)] 1
             (projr (mcInit (exEnv [1, 2]) (exParams 1) [(1, 4, 1)] 0
                (exState [[1, 1]] (Some 0)))) = Inr s'
          \<and> numMoves s' = 1 \<and> heap (py s') 0 = [[1, 2]])"
proof -
  let ?e = "exEnv [1, 2]" and ?P = "exParams 1" and ?d = "[(1, 4, 1)] :: prepared"
  let ?st = "exState [[1, 1]] (Some 0)"
  define s0 where "s0 = projr (mcInit ?e ?P ?d 0 ?st)"
  obtain res st' where m: "mcFit ?e ?P ?d ?st = Inr (res, st')"
    and h: "fitRset res = 0" "heap st' 0 = [[1, 2]]"
    using ex_converging_fit by blast
  have p: "priorSize ?st \<noteq> 0" "prior ?st = Some 0" "0 < nextAddr ?st"
    by (simp_all add: priorSize_def arraySize_def exdefs)
  obtain s' where st: "mcStep ?e ?P ?d 1 s0 = Inr s'" and n: "numMoves s' = 1"
    unfolding s0_def by (simp add: evaldefs exdefs)
  have s0: "rset s0 = 0" "ri s0 = 0" "heap (py s0) 0 = [[1, 1]]" "numMoves s0 = 0"
    "uniformDraw ?e (upos (py s0)) = [1, 2]"
    unfolding s0_def by (simp_all add: evaldefs exdefs)
  note t = mcFit_writes_its_prior[of ?e ?P ?d ?st res st' 1 s0 s' 0 "exParams 5" "[1]"]
  from t m p have p': "prior st' = Some 0" by simp
  then have ps: "priorSize st' \<noteq> 0" using h by (simp add: priorSize_def arraySize_def)
  from t m p ps h have sr: "seedRows ?e (exParams 5) [1] st' = Inr [[1, 2]]" by simp
  from t st n s0 have "heap (py s') 0 = [[1, 2]]" by auto
  with m p p' ps sr h st n show ?thesis unfolding s0_def by blast
qed


subsection \<open>Setting up the data\<close>

lemma vstackT_three:
  assumes "length i = length q" "length s = length q"
  shows "vstackT [q, i, s] = Inr (threeColumns q i s)"
  using assms by (simp add: vstackT_def threeColumns_def)

lemma hd_threeColumns: "map hd (threeColumns q i s) = q"
  by (auto simp: threeColumns_def intro: nth_equalityI)

text \<open>
  Claim C8: an uncertainty array that is all zero raises ConfigurationError during the
  set-up, before any seeding.

  As stated the claim fails: nothing in \<^verbatim>\<open>setData\<close>,
  \<^verbatim>\<open>clipDataset\<close> or \<^verbatim>\<open>checkParameters\<close> looks at the values of the
  uncertainty. With two data points and the uncertainty (0, 0) the set-up ends without
  an exception, and the prepared data that \<^verbatim>\<open>analyse\<close> will read have the
  zeros in their third column.
\<close>

theorem zero_uncertainty_accepted_counterexample:
  "map_sum id (preparedRows \<circ> fst)
     (construct acceptingBase (exKwargs [0, 0]) noClipping (Single 50) (Single ''log'') (0, 1))
   = Inr (Some [[1, 1, 0], [2, 1, 0]])"
  by (simp add: construct_def setData_def vstackT_def sasDataInit_def exKwargs_def
        acceptingBase_def clipDataset_def noClipping_def checkParameters_def fixLength_def
        Let_def)

text \<open>
  Claim C8, amended: the set-up does not look at the values of the uncertainty. For q,
  intensity and uncertainty of one length, at least two data points, no angles, the
  default settings of the clipping, single values for the number of bins and the scale
  of the histogram, and a base class that raises nothing for the array, the set-up
  ends without an exception whatever the uncertainty is, all zero included, and the
  prepared data are the three columns as given.
\<close>

theorem uncertainty_not_checked:
  assumes "length i = length q" and "length s = length q" and "2 \<le> length q"
    and "base (Some (threeColumns q i s)) = None"
  shows "\<exists>sb ch. construct base
            \<lparr>kwQ = Some q, kwI = Some i, kwIError = Some s, kwPsi = None, kwDataset = None\<rparr>
            noClipping (Single nb) (Single xs) vr
          = Inr (\<lparr>origin = Some (threeColumns q i s),
                  preparedRows = Some (threeColumns q i s), sizeBounds = sb\<rparr>, ch)"
  using assms
  by (simp add: construct_def setData_def vstackT_three sasDataInit_def hd_threeColumns
        clipDataset_def noClipping_def checkParameters_def fixLength_def Let_def)

theorem uncertainty_not_checked_witness:
  "length [1, 1 :: real] = length [1, 2 :: real] \<and> length [0, 0 :: real] = length [1, 2 :: real]
   \<and> 2 \<le> length [1, 2 :: real] \<and> acceptingBase (Some (threeColumns [1, 2] [1, 1] [0, 0])) = None
   \<and> (\<exists>sb ch. construct acceptingBase
            \<lparr>kwQ = Some [1, 2], kwI = Some [1, 1], kwIError = Some [0, 0], kwPsi = None,
             kwDataset = None\<rparr>
            noClipping (Single 50) (Single ''log'') (0, 1)
          = Inr (\<lparr>origin = Some (threeColumns [1, 2] [1, 1] [0, 0]),
                  preparedRows = Some (threeColumns [1, 2] [1, 1] [0, 0]), sizeBounds = sb\<rparr>,
                 ch))"
proof -
  have h: "length [1, 1 :: real] = length [1, 2 :: real]"
    "length [0, 0 :: real] = length [1, 2 :: real]" "2 \<le> length [1, 2 :: real]"
    "acceptingBase (Some (threeColumns [1, 2] [1, 1] [0, 0])) = None"
    by (simp_all add: acceptingBase_def)
  from uncertainty_not_checked[where q = "[1, 2]" and i = "[1, 1]" and s = "[0, 0]"
      and base = acceptingBase and nb = 50 and xs = "''log''" and vr = "(0, 1)", OF h] h
  show ?thesis by blast
qed

subsection \<open>The observability limit of a bin\<close>
























end
